theory Spec2Isabelle
  imports Main
begin

section \<open>Python values, exceptions and the observable world\<close>

text \<open>
  The script \<^verbatim>\<open>python_salt_api_demo.py\<close> handles the untyped return data of the Salt
  client: nested dictionaries, lists, booleans, integers and strings. A dictionary is an
  association list in its iteration order; a well-formed one has distinct keys.
\<close>

datatype pyval =
    PNone
  | PBool bool
  | PInt int
  | PStr string
  | PList "pyval list"
  | PDict "(string \<times> pyval) list"

text \<open>
  \<open>PyExc name\<close> is an exception whose class derives from \<^verbatim>\<open>Exception\<close> (the class
  name is kept); \<open>SystemExit\<close> is what \<^verbatim>\<open>exit(n)\<close> raises. It derives from
  \<^verbatim>\<open>BaseException\<close> only, so \<^verbatim>\<open>except Exception\<close> does not catch it.
\<close>

datatype exn = PyExc string | SystemExit int

datatype level = DEBUG | INFO | WARNING | ERROR

text \<open>
  The message templates of the script, one constructor each:
  \<^item> \<open>CheckingReturnData\<close>: "Checking return data {0}"
  \<^item> \<open>SaltRunFailed\<close>: "Salt run failed. Full Salt run output follows."
  \<^item> \<open>Payload\<close>: "{0}" (the value itself is the message)
  \<^item> \<open>StateFailed\<close>: "A Salt state on minion '{0}' failed with a status of '{1}'."
  \<^item> \<open>StateComment\<close>: "Comment from failed state is: {0}"
  \<^item> \<open>EntireReturn\<close>: "The entire return value is: {0}"
  \<^item> \<open>CheckerDisagrees\<close>: "Salt state checker reported a failed run but we could not
    find the error."
  \<^item> \<open>ContinuingAnyway\<close>: "We will continue with the process. Please see the full
    return data below for more details."
  \<^item> \<open>NoDataReturned\<close>: "The Salt call failed to return any data. Following is the
    entire payload for inspection."
  \<^item> \<open>UpdatingConfigs\<close>: "Updating configuration files on {0}"
  \<^item> \<open>RestartingService\<close>: "Restarting haproxy on node '{0}'"
  \<^item> \<open>RestartFailed\<close>: "Failed to restart haproxy on {0}. Number of retries left: {1}"
  \<^item> \<open>UpdatingPackages\<close>: "Updating all system packages on '{0}'."
  \<^item> \<open>RestartingHost\<close>: "Restarting host '{0}'."
  \<^item> \<open>PingingHost\<close>: "Pinging host '{0}' for connectivity."
  \<^item> \<open>NoResponse\<close>: "No response from host '{0}'. {1} seconds before giving up."
  \<^item> \<open>RebootCompleted\<close>: "Host '{0}' has completed rebooting"
  \<^item> \<open>WaitingForReboot\<close>: "Waiting for host '{0}' to begin rebooting"
  \<^item> \<open>RebootTimedOut\<close>: "Timed out waiting for host '{0}' to respond to ping. Failing."
  \<^item> \<open>NeedsRoot\<close>: "This script needs root permissions to execute."
  \<^item> \<open>TargetingMinions\<close>: "Targeting the following minions:"
  \<^item> \<open>TargetLine\<close>: "  {0}"
  \<^item> \<open>PingingAll\<close>: "Pinging all nodes to confirm connectivity"
  \<^item> \<open>NotAllResponded\<close>: "Not all nodes responded to pings. Halting execution.
    Following are the nodes that did not respond."
  \<^item> \<open>DownNode\<close>: "- {0}"
  \<^item> \<open>PleaseFix\<close>: "Please fix the issue or exclude the problem nodes."
  \<^item> \<open>AllResponded\<close>: "All minions responded to ping. Continuing."
  \<^item> \<open>BeginningWork\<close>: "Beginning work on {0}"
  \<^item> \<open>UpdateRestartFailed\<close>: "Failed to update and restart haproxy on minion {0}.
    Exiting"
  \<^item> \<open>WorkFailed\<close>: "Work on minion '{0}' failed. Number of retries left: {1}.
    Exception text follows: {2}"
  \<^item> \<open>WipingShim\<close>: "Wiping salt-ssh shim before next retry"
  \<^item> \<open>FailedOnMinion\<close>: "Failed on minion'{0}'. Exiting now."
  \<^item> \<open>Finished\<close>: "Finished. Total time in hh:mm:ss is {0}"
\<close>

datatype msg =
    CheckingReturnData | SaltRunFailed | Payload | StateFailed | StateComment
  | EntireReturn | CheckerDisagrees | ContinuingAnyway | NoDataReturned
  | UpdatingConfigs | RestartingService | RestartFailed | UpdatingPackages
  | RestartingHost | PingingHost | NoResponse | RebootCompleted | WaitingForReboot
  | RebootTimedOut | NeedsRoot | TargetingMinions | TargetLine | PingingAll
  | NotAllResponded | DownNode | PleaseFix | AllResponded | BeginningWork
  | UpdateRestartFailed | WorkFailed | WipingShim | FailedOnMinion | Finished

text \<open>
  What the script does to the outside, in order: a call of \<^verbatim>\<open>client.cmd\<close> (whether the
  client is the salt-ssh one, the target, the function, its positional and its keyword
  arguments), a \<^verbatim>\<open>time.sleep\<close>, a call of the logging module (level, template, the
  values formatted into it) and a \<^verbatim>\<open>print\<close>.
\<close>

datatype event =
    Cmd bool pyval string "pyval list" "(string \<times> pyval) list"
  | Sleep nat
  | Log level msg "pyval list"
  | Print msg

record world =
  calls :: nat
  trace :: "event list"

text \<open>
  What the script depends on and does not define: the Salt client's answers (the answer
  to the \<open>n\<close>-th call of \<^verbatim>\<open>client.cmd\<close> of the run; the program is deterministic, so a
  script of answers by position describes every behaviour of the client),
  \<^verbatim>\<open>salt.utils.check_state_result\<close> (the aggregate checker), and the order Python 2
  gives to two values that are not both integers.
\<close>

record collab =
  replies :: "nat \<Rightarrow> pyval"
  state_checker :: "pyval \<Rightarrow> bool"
  py2_lt :: "pyval \<Rightarrow> pyval \<Rightarrow> bool"

text \<open>
  A piece of the script is a function of the world: it may not return (\<open>None\<close>), raise
  (\<open>Inl\<close>) or return a value (\<open>Inr\<close>), and it leaves a world behind.
\<close>

type_synonym 'a prog = "world \<Rightarrow> ((exn + 'a) \<times> world) option"

definition unit :: "'a \<Rightarrow> 'a prog" where
  "unit x = (\<lambda>w. Some (Inr x, w))"

definition raise :: "exn \<Rightarrow> 'a prog" where
  "raise e = (\<lambda>w. Some (Inl e, w))"

definition bind :: "'a prog \<Rightarrow> ('a \<Rightarrow> 'b prog) \<Rightarrow> 'b prog" where
  "bind m k = (\<lambda>w. case m w of
       None \<Rightarrow> None
     | Some (Inl e, w') \<Rightarrow> Some (Inl e, w')
     | Some (Inr x, w') \<Rightarrow> k x w')"

definition seq :: "unit prog \<Rightarrow> 'b prog \<Rightarrow> 'b prog" where
  "seq m k = bind m (\<lambda>_. k)"

definition lift :: "exn + 'a \<Rightarrow> 'a prog" where
  "lift r = (case r of Inl e \<Rightarrow> raise e | Inr x \<Rightarrow> unit x)"

definition emit :: "event \<Rightarrow> unit prog" where
  "emit e = (\<lambda>w. Some (Inr (), w\<lparr>trace := trace w @ [e]\<rparr>))"

definition log :: "level \<Rightarrow> msg \<Rightarrow> pyval list \<Rightarrow> unit prog" where
  "log l m args = emit (Log l m args)"

definition sleep :: "nat \<Rightarrow> unit prog" where
  "sleep n = emit (Sleep n)"

text \<open>\<^verbatim>\<open>salt_client(use_ssh).cmd(target, function, args, **kwargs)\<close>\<close>

definition client_cmd ::
  "collab \<Rightarrow> bool \<Rightarrow> pyval \<Rightarrow> string \<Rightarrow> pyval list \<Rightarrow> (string \<times> pyval) list \<Rightarrow> pyval prog" where
  "client_cmd c use_ssh tgt f args kwargs =
     (\<lambda>w. Some (Inr (replies c (calls w)),
                 w\<lparr>calls := calls w + 1, trace := trace w @ [Cmd use_ssh tgt f args kwargs]\<rparr>))"

subsection \<open>The operations of Python the script applies to return data\<close>

text \<open>\<^verbatim>\<open>x[k]\<close> for a string \<open>k\<close>\<close>

definition py_getitem :: "pyval \<Rightarrow> string \<Rightarrow> exn + pyval" where
  "py_getitem x k =
     (case x of
        PDict kvs \<Rightarrow> (case map_of kvs k of None \<Rightarrow> Inl (PyExc ''KeyError'') | Some v \<Rightarrow> Inr v)
      | _ \<Rightarrow> Inl (PyExc ''TypeError''))"

text \<open>\<^verbatim>\<open>x.get(k)\<close>, also \<^verbatim>\<open>x.get(k, None)\<close>\<close>

definition py_get :: "pyval \<Rightarrow> string \<Rightarrow> exn + pyval" where
  "py_get x k =
     (case x of
        PDict kvs \<Rightarrow> (case map_of kvs k of None \<Rightarrow> Inr PNone | Some v \<Rightarrow> Inr v)
      | _ \<Rightarrow> Inl (PyExc ''AttributeError''))"

definition py_keys :: "pyval \<Rightarrow> exn + string list" where
  "py_keys x = (case x of PDict kvs \<Rightarrow> Inr (map fst kvs) | _ \<Rightarrow> Inl (PyExc ''AttributeError''))"

definition py_items :: "pyval \<Rightarrow> exn + (string \<times> pyval) list" where
  "py_items x = (case x of PDict kvs \<Rightarrow> Inr kvs | _ \<Rightarrow> Inl (PyExc ''AttributeError''))"

text \<open>The truth value \<^verbatim>\<open>if x\<close> and \<^verbatim>\<open>not x\<close> test\<close>

fun py_truth :: "pyval \<Rightarrow> bool" where
  "py_truth PNone = False"
| "py_truth (PBool b) = b"
| "py_truth (PInt n) = (n \<noteq> 0)"
| "py_truth (PStr s) = (s \<noteq> [])"
| "py_truth (PList xs) = (xs \<noteq> [])"
| "py_truth (PDict kvs) = (kvs \<noteq> [])"

text \<open>
  \<^verbatim>\<open>x == n\<close> for an integer or a boolean \<open>n\<close> (\<^verbatim>\<open>False\<close> is 0 and \<^verbatim>\<open>True\<close> is 1):
  only a number is equal to a number.
\<close>

fun py_eq_num :: "pyval \<Rightarrow> int \<Rightarrow> bool" where
  "py_eq_num (PInt n) k = (n = k)"
| "py_eq_num (PBool b) k = ((if b then 1 else 0) = k)"
| "py_eq_num _ k = False"

text \<open>\<^verbatim>\<open>a < b\<close>: the order of the integers, and Python 2's own order elsewhere\<close>

fun py_lt :: "collab \<Rightarrow> pyval \<Rightarrow> pyval \<Rightarrow> bool" where
  "py_lt c (PInt a) (PInt b) = (a < b)"
| "py_lt c a b = py2_lt c a b"

text \<open>
  \<^verbatim>\<open>SALT_RETURN_KEY\<close>: salt-ssh stores return data under \<^verbatim>\<open>'return'\<close>, a minion-based
  run under \<^verbatim>\<open>'ret'\<close>.
\<close>

definition SALT_RETURN_KEY :: "bool \<Rightarrow> string" where
  "SALT_RETURN_KEY use_ssh = (if use_ssh then ''return'' else ''ret'')"

section \<open>\<^verbatim>\<open>check_salt_run_status\<close>\<close>

text \<open>
  The first loop: \<^verbatim>\<open>state_succeeded\<close> starts \<^verbatim>\<open>True\<close> and becomes \<^verbatim>\<open>False\<close> when the
  checker rejects the payload of a minion.
\<close>

fun checker_loop :: "collab \<Rightarrow> bool \<Rightarrow> pyval \<Rightarrow> string list \<Rightarrow> bool \<Rightarrow> exn + bool" where
  "checker_loop c use_ssh ret_data [] state_succeeded = Inr state_succeeded"
| "checker_loop c use_ssh ret_data (minion # minions) state_succeeded =
     (case py_getitem ret_data minion of
        Inl e \<Rightarrow> Inl e
      | Inr entry \<Rightarrow>
          (case py_getitem entry (SALT_RETURN_KEY use_ssh) of
             Inl e \<Rightarrow> Inl e
           | Inr payload \<Rightarrow>
               checker_loop c use_ssh ret_data minions
                 (if \<not> state_checker c payload then False else state_succeeded)))"

text \<open>
  The loop over the states of one minion. \<open>Some False\<close> is \<^verbatim>\<open>return False\<close>; \<open>None\<close> is
  the loop running to its end.
\<close>

fun scan_states :: "bool \<Rightarrow> pyval \<Rightarrow> string \<Rightarrow> (string \<times> pyval) list \<Rightarrow> bool option prog" where
  "scan_states use_ssh ret_data minion [] = unit None"
| "scan_states use_ssh ret_data minion ((state, values) # rest) =
     bind (lift (py_get values (SALT_RETURN_KEY use_ssh))) (\<lambda>flag.
       if flag \<noteq> PBool True then
         bind (lift (py_get values ''result'')) (\<lambda>status.
         seq (log ERROR StateFailed [PStr minion, status])
        (bind (lift (py_get values ''comment'')) (\<lambda>comment.
         seq (log ERROR StateComment [comment])
        (seq (log ERROR EntireReturn [ret_data])
             (unit (Some False))))))
       else scan_states use_ssh ret_data minion rest)"

text \<open>The second loop over the minions.\<close>

fun scan_minions :: "bool \<Rightarrow> pyval \<Rightarrow> string list \<Rightarrow> bool option prog" where
  "scan_minions use_ssh ret_data [] = unit None"
| "scan_minions use_ssh ret_data (minion # minions) =
     bind (lift (py_getitem ret_data minion)) (\<lambda>entry.
     bind (lift (py_getitem entry (SALT_RETURN_KEY use_ssh))) (\<lambda>payload.
       (case payload of
          PList errors \<Rightarrow>
            seq (log ERROR SaltRunFailed [])
           (seq (log ERROR Payload [ret_data])
                (unit (Some False)))
        | _ \<Rightarrow>
            bind (lift (py_items payload)) (\<lambda>states.
            bind (scan_states use_ssh ret_data minion states) (\<lambda>found.
              (case found of
                 Some b \<Rightarrow> unit (Some b)
               | None \<Rightarrow> scan_minions use_ssh ret_data minions))))))"

definition check_salt_run_status :: "collab \<Rightarrow> bool \<Rightarrow> pyval \<Rightarrow> bool prog" where
  "check_salt_run_status c use_ssh ret_data =
     seq (log DEBUG CheckingReturnData [ret_data])
    (bind (lift (py_keys ret_data)) (\<lambda>minions.
     bind (lift (checker_loop c use_ssh ret_data minions True)) (\<lambda>state_succeeded.
       if state_succeeded then unit True
       else
         bind (scan_minions use_ssh ret_data minions) (\<lambda>found.
           (case found of
              Some b \<Rightarrow> unit b
            | None \<Rightarrow>
                seq (log WARNING CheckerDisagrees [])
               (seq (log WARNING ContinuingAnyway [])
               (seq (log WARNING Payload [ret_data])
                    (unit True))))))))"

section \<open>The action handlers\<close>

text \<open>
  \<^verbatim>\<open>do_salt_call(target, function, use_ssh, **kwargs)\<close>. With a \<^verbatim>\<open>fun_args\<close> keyword the
  source evaluates the name \<^verbatim>\<open>fun_args\<close>, which is not defined (the keyword lives in
  \<^verbatim>\<open>kwargs\<close>). The script's only call passes \<^verbatim>\<open>options.use_ssh\<close>, the flag that also
  fixes \<^verbatim>\<open>SALT_RETURN_KEY\<close>.
\<close>

definition do_salt_call ::
  "collab \<Rightarrow> bool \<Rightarrow> string \<Rightarrow> string \<Rightarrow> (string \<times> pyval) list \<Rightarrow> pyval prog" where
  "do_salt_call c use_ssh target function kwargs =
     bind (if map_of kwargs ''fun_args'' \<noteq> None
           then raise (PyExc ''NameError'')
           else client_cmd c use_ssh (PStr target) function [] [(''full_return'', PBool True)])
       (\<lambda>ret.
     bind (lift (py_getitem ret target)) (\<lambda>entry.
     bind (lift (py_getitem entry (SALT_RETURN_KEY use_ssh))) (\<lambda>data.
       if \<not> py_truth data then
         seq (log ERROR NoDataReturned [])
        (seq (log ERROR Payload [ret])
             (raise (PyExc ''Exception'')))
       else unit ret)))"

definition update_configs :: "collab \<Rightarrow> bool \<Rightarrow> string \<Rightarrow> unit prog" where
  "update_configs c use_ssh node =
     seq (log INFO UpdatingConfigs [PStr node])
    (bind (client_cmd c use_ssh (PStr node) ''state.sls'' [PStr ''haproxy.update_configs'']
             [(''kwarg'', PDict [(''pillar'', PDict [(''foo'', PStr ''bar'')])]),
              (''full_return'', PBool True)]) (\<lambda>output.
     bind (check_salt_run_status c use_ssh output) (\<lambda>ok.
       if \<not> ok then raise (PyExc ''Exception'') else unit ())))"

text \<open>
  One round of the loop of \<^verbatim>\<open>restart_service\<close>; it returns the new values of the loop's
  variables \<^verbatim>\<open>tries\<close> and \<^verbatim>\<open>success\<close>.
\<close>

definition restart_service_body ::
  "collab \<Rightarrow> bool \<Rightarrow> string \<Rightarrow> int \<Rightarrow> (int \<times> bool) prog" where
  "restart_service_body c use_ssh node tries =
     seq (log INFO RestartingService [PStr node])
    (bind (client_cmd c use_ssh (PStr node) ''service.restart'' [PStr ''haproxy''] []) (\<lambda>restarted.
     seq (sleep 2)
    (bind (client_cmd c use_ssh (PStr node) ''service.status'' [PStr ''haproxy''] []) (\<lambda>output.
     bind (lift (py_getitem output node)) (\<lambda>status.
       if \<not> py_truth status then
         (let tries = tries - 1 in
          if tries = 0 then raise (PyExc ''Exception'')
          else
            seq (log WARNING RestartFailed [PStr node, PInt tries])
           (seq (sleep 5)
                (unit (tries, False))))
       else unit (tries, True))))))"

partial_function (option) restart_service_loop ::
  "collab \<Rightarrow> bool \<Rightarrow> string \<Rightarrow> int \<Rightarrow> bool \<Rightarrow> world \<Rightarrow> ((exn + unit) \<times> world) option" where
  "restart_service_loop c use_ssh node tries success w =
     (if \<not> success then
        (case restart_service_body c use_ssh node tries w of
           None \<Rightarrow> None
         | Some (Inl e, w') \<Rightarrow> Some (Inl e, w')
         | Some (Inr (tries', success'), w') \<Rightarrow>
             restart_service_loop c use_ssh node tries' success' w')
      else Some (Inr (), w))"

definition restart_service :: "collab \<Rightarrow> bool \<Rightarrow> string \<Rightarrow> unit prog" where
  "restart_service c use_ssh node = restart_service_loop c use_ssh node 3 False"

definition update_system :: "collab \<Rightarrow> bool \<Rightarrow> string \<Rightarrow> unit prog" where
  \<open>update_system c use_ssh node =
     seq (log INFO UpdatingPackages [PStr node])
    (bind (client_cmd c use_ssh (PStr node) ''pkg.upgrade'' [PStr ''refresh="true"'']
             [(''full_return'', PBool True)]) (\<lambda>output.
     bind (check_salt_run_status c use_ssh output) (\<lambda>ok.
       if \<not> ok then raise (PyExc ''Exception'') else unit ())))\<close>

text \<open>The loop of \<^verbatim>\<open>ping_all_nodes\<close> that collects \<^verbatim>\<open>failed_minions\<close>.\<close>

fun collect_failed :: "(string \<times> pyval) list \<Rightarrow> string list \<Rightarrow> string list" where
  "collect_failed [] failed_minions = failed_minions"
| "collect_failed ((minion, v) # rest) failed_minions =
     collect_failed rest (if py_eq_num v 0 then failed_minions @ [minion] else failed_minions)"

definition ping_all_nodes :: "collab \<Rightarrow> bool \<Rightarrow> string list \<Rightarrow> pyval prog" where
  "ping_all_nodes c use_ssh nodes =
     bind (client_cmd c use_ssh (PList (map PStr nodes)) ''test.ping'' []
             [(''tgt_type'', PStr ''list''), (''full_return'', PBool True)]) (\<lambda>ret.
     bind (lift (py_items ret)) (\<lambda>items.
       (let failed_minions = collect_failed items [] in
        if length failed_minions > 0 then unit (PList (map PStr failed_minions))
        else unit (PBool True))))"

subsection \<open>\<^verbatim>\<open>restart_host\<close>\<close>

text \<open>
  The test \<^verbatim>\<open>(options.use_ssh and output[node].get('retcode') != 0) or (output[node] is
  False)\<close> of the poll loop.
\<close>

definition no_response :: "bool \<Rightarrow> pyval \<Rightarrow> string \<Rightarrow> exn + bool" where
  "no_response use_ssh output node =
     (if use_ssh then
        (case py_getitem output node of
           Inl e \<Rightarrow> Inl e
         | Inr entry \<Rightarrow>
             (case py_get entry ''retcode'' of
                Inl e \<Rightarrow> Inl e
              | Inr retcode \<Rightarrow>
                  if \<not> py_eq_num retcode 0 then Inr True else Inr (entry = PBool False)))
      else
        (case py_getitem output node of
           Inl e \<Rightarrow> Inl e
         | Inr entry \<Rightarrow> Inr (entry = PBool False)))"

text \<open>
  How a round of the poll loop ends: \<open>Next t\<close> goes back to the loop's test with
  \<^verbatim>\<open>timeout\<close> equal to \<open>t\<close>, \<open>Return\<close> is the \<^verbatim>\<open>return\<close> in the loop.
\<close>

datatype flow = Next int | Return

definition restart_host_body ::
  "collab \<Rightarrow> bool \<Rightarrow> string \<Rightarrow> pyval \<Rightarrow> int \<Rightarrow> flow prog" where
  "restart_host_body c use_ssh node uptime_before_reboot timeout =
     seq (log INFO PingingHost [PStr node])
    (bind (client_cmd c use_ssh (PStr node) ''status.uptime'' []
             [(''full_return'', PBool True)]) (\<lambda>output.
     bind (lift (no_response use_ssh output node)) (\<lambda>down.
       if down then
         seq (log INFO NoResponse [PStr node, PInt timeout])
        (seq (sleep 10)
             (unit (Next (timeout - 10))))
       else
         bind (lift (py_getitem output node)) (\<lambda>entry.
         bind (lift (py_getitem entry (SALT_RETURN_KEY use_ssh))) (\<lambda>data.
         bind (lift (py_getitem data ''seconds'')) (\<lambda>current_uptime.
           if py_lt c current_uptime uptime_before_reboot then
             seq (log INFO RebootCompleted [PStr node])
                 (unit Return)
           else
             seq (log INFO WaitingForReboot [PStr node])
            (seq (sleep 10)
                 (unit (Next timeout)))))))))"

partial_function (option) restart_host_loop ::
  "collab \<Rightarrow> bool \<Rightarrow> string \<Rightarrow> pyval \<Rightarrow> int \<Rightarrow> world \<Rightarrow> ((exn + unit) \<times> world) option" where
  "restart_host_loop c use_ssh node uptime_before_reboot timeout w =
     (if timeout > 0 then
        (case restart_host_body c use_ssh node uptime_before_reboot timeout w of
           None \<Rightarrow> None
         | Some (Inl e, w') \<Rightarrow> Some (Inl e, w')
         | Some (Inr Return, w') \<Rightarrow> Some (Inr (), w')
         | Some (Inr (Next timeout'), w') \<Rightarrow>
             restart_host_loop c use_ssh node uptime_before_reboot timeout' w')
      else
        seq (log ERROR RebootTimedOut [PStr node])
            (raise (PyExc ''Exception'')) w)"

definition restart_host :: "collab \<Rightarrow> bool \<Rightarrow> string \<Rightarrow> unit prog" where
  "restart_host c use_ssh node =
     seq (log INFO RestartingHost [PStr node])
    (bind (do_salt_call c use_ssh node ''status.uptime'' []) (\<lambda>ret.
     bind (lift (py_getitem ret node)) (\<lambda>entry.
     bind (lift (py_getitem entry (SALT_RETURN_KEY use_ssh))) (\<lambda>data.
     bind (lift (py_getitem data ''seconds'')) (\<lambda>uptime_before_reboot.
     bind (client_cmd c use_ssh (PStr node) ''system.reboot'' []
             [(''full_return'', PBool True)]) (\<lambda>output.
       restart_host_loop c use_ssh node uptime_before_reboot 300))))))"

section \<open>\<^verbatim>\<open>main\<close>\<close>

record options =
  opt_minions :: "string option"
  opt_test :: bool
  opt_use_ssh :: bool
  opt_reboot :: bool
  opt_action :: string

text \<open>\<^verbatim>\<open>s.split(',')\<close>\<close>

fun split_comma :: "string \<Rightarrow> string list" where
  "split_comma [] = [[]]"
| "split_comma (ch # rest) =
     (if ch = CHR '','' then [] # split_comma rest
      else (case split_comma rest of
              [] \<Rightarrow> [[ch]]
            | piece # pieces \<Rightarrow> (ch # piece) # pieces))"

text \<open>
  \<^verbatim>\<open>try: body except Exception as e: handler\<close>: \<open>SystemExit\<close> passes through.
\<close>

definition try_except :: "'a prog \<Rightarrow> (string \<Rightarrow> 'a prog) \<Rightarrow> 'a prog" where
  "try_except body handler = (\<lambda>w. case body w of
       None \<Rightarrow> None
     | Some (Inl (PyExc e), w') \<Rightarrow> handler e w'
     | Some (Inl (SystemExit n), w') \<Rightarrow> Some (Inl (SystemExit n), w')
     | Some (Inr x, w') \<Rightarrow> Some (Inr x, w'))"

text \<open>The script calls \<^verbatim>\<open>wait_for_es_service\<close> and defines no such name.\<close>

definition wait_for_es_service :: "string \<Rightarrow> unit prog" where
  "wait_for_es_service minion = raise (PyExc ''NameError'')"

text \<open>The body of the \<^verbatim>\<open>try\<close> in the retry loop, up to \<^verbatim>\<open>success = True\<close>.\<close>

definition attempt :: "collab \<Rightarrow> options \<Rightarrow> string \<Rightarrow> unit prog" where
  "attempt c opts minion =
     (if opt_action opts = ''update_configs'' then
        try_except
          (seq (update_configs c (opt_use_ssh opts) minion)
               (restart_service c (opt_use_ssh opts) minion))
          (\<lambda>e. seq (log ERROR UpdateRestartFailed [PStr minion])
                    (raise (SystemExit 1)))
      else if opt_action opts = ''restart_service'' then
        restart_service c (opt_use_ssh opts) minion
      else if opt_action opts = ''reboot_host'' then
        seq (restart_host c (opt_use_ssh opts) minion)
            (wait_for_es_service minion)
      else if opt_action opts = ''update_system'' then
        seq (update_system c (opt_use_ssh opts) minion)
       (seq (if opt_reboot opts then restart_host c (opt_use_ssh opts) minion else unit ())
            (wait_for_es_service minion))
      else unit ())"

text \<open>
  The \<^verbatim>\<open>except Exception\<close> clause of the retry loop; it returns the new value of
  \<^verbatim>\<open>tries\<close>.
\<close>

definition on_failure :: "collab \<Rightarrow> bool \<Rightarrow> string \<Rightarrow> int \<Rightarrow> string \<Rightarrow> int prog" where
  "on_failure c use_ssh minion tries e =
     (let tries = tries - 1 in
      seq (log WARNING WorkFailed [PStr minion, PInt tries, PStr e])
     (seq (if use_ssh then
             seq (log WARNING WipingShim [])
                 (bind (client_cmd c use_ssh (PStr minion) ''test.ping'' []
                          [(''ssh_wipe'', PBool True), (''full_return'', PBool True)])
                    (\<lambda>wiped. unit ()))
           else unit ())
          (if tries = 0 then
             seq (log ERROR FailedOnMinion [PStr minion])
                 (raise (SystemExit 1))
           else unit tries)))"

text \<open>
  The loop \<^verbatim>\<open>while not success\<close> around the \<^verbatim>\<open>try\<close>, for the handler the configured
  action selects.
\<close>

partial_function (option) retry_loop ::
  "collab \<Rightarrow> bool \<Rightarrow> unit prog \<Rightarrow> string \<Rightarrow> int \<Rightarrow> bool \<Rightarrow> world \<Rightarrow> ((exn + unit) \<times> world) option" where
  "retry_loop c use_ssh handler minion tries success w =
     (if \<not> success then
        (case handler w of
           None \<Rightarrow> None
         | Some (Inr u, w1) \<Rightarrow> retry_loop c use_ssh handler minion tries True w1
         | Some (Inl (SystemExit n), w1) \<Rightarrow> Some (Inl (SystemExit n), w1)
         | Some (Inl (PyExc e), w1) \<Rightarrow>
             (case on_failure c use_ssh minion tries e w1 of
                None \<Rightarrow> None
              | Some (Inl x, w2) \<Rightarrow> Some (Inl x, w2)
              | Some (Inr tries', w2) \<Rightarrow>
                  retry_loop c use_ssh handler minion tries' False w2))
      else Some (Inr (), w))"

text \<open>The loop \<^verbatim>\<open>for minion in minions\<close>.\<close>

fun for_minions ::
  "collab \<Rightarrow> bool \<Rightarrow> (string \<Rightarrow> unit prog) \<Rightarrow> string list \<Rightarrow> unit prog" where
  "for_minions c use_ssh handler [] = unit ()"
| "for_minions c use_ssh handler (minion # rest) =
     seq (log INFO BeginningWork [PStr minion])
    (seq (retry_loop c use_ssh (handler minion) minion 3 False)
         (for_minions c use_ssh handler rest))"

fun log_each :: "level \<Rightarrow> msg \<Rightarrow> pyval list \<Rightarrow> unit prog" where
  "log_each l m [] = unit ()"
| "log_each l m (x # xs) = seq (log l m [x]) (log_each l m xs)"

text \<open>What \<^verbatim>\<open>for node in x\<close> runs over.\<close>

definition py_iter :: "pyval \<Rightarrow> exn + pyval list" where
  "py_iter x =
     (case x of
        PList xs \<Rightarrow> Inr xs
      | PDict kvs \<Rightarrow> Inr (map (\<lambda>kv. PStr (fst kv)) kvs)
      | PStr s \<Rightarrow> Inr (map (\<lambda>ch. PStr [ch]) s)
      | _ \<Rightarrow> Inl (PyExc ''TypeError''))"

text \<open>
  \<open>uid\<close> is what \<^verbatim>\<open>os.getuid()\<close> returns. The elapsed time logged at the end is read
  from the clock and is not part of the event.
\<close>

definition main :: "collab \<Rightarrow> options \<Rightarrow> nat \<Rightarrow> unit prog" where
  "main c opts uid =
     (if \<not> uid = 0 then
        seq (emit (Print NeedsRoot))
            (raise (SystemExit 1))
      else
        bind (case opt_minions opts of
                None \<Rightarrow> raise (PyExc ''AttributeError'')
              | Some s \<Rightarrow> unit (split_comma s)) (\<lambda>minions.
          if opt_test opts then
            seq (log INFO TargetingMinions [])
           (seq (log_each INFO TargetLine (map PStr minions))
                (raise (SystemExit 0)))
          else
            seq (log INFO PingingAll [])
           (bind (ping_all_nodes c (opt_use_ssh opts) minions) (\<lambda>all_nodes_up.
              if \<not> py_eq_num all_nodes_up 1 then
                seq (log ERROR NotAllResponded [])
               (bind (lift (py_iter all_nodes_up)) (\<lambda>nodes.
                seq (log_each ERROR DownNode nodes)
               (seq (log ERROR PleaseFix [])
                    (raise (SystemExit 1)))))
              else
                seq (log INFO AllResponded [])
               (seq (for_minions c (opt_use_ssh opts) (attempt c opts) minions)
                    (log INFO Finished []))))))"

section \<open>Scenarios\<close>

declare restart_service_loop.simps [code]
declare restart_host_loop.simps [code]
declare retry_loop.simps [code]

text \<open>\<^verbatim>\<open>output[node][SALT_RETURN_KEY]['seconds']\<close>, as the source reads an uptime.\<close>

definition uptime_of :: "bool \<Rightarrow> string \<Rightarrow> pyval \<Rightarrow> exn + pyval" where
  "uptime_of use_ssh node output =
     (case py_getitem output node of
        Inl e \<Rightarrow> Inl e
      | Inr entry \<Rightarrow>
          (case py_getitem entry (SALT_RETURN_KEY use_ssh) of
             Inl e \<Rightarrow> Inl e
           | Inr data \<Rightarrow> py_getitem data ''seconds''))"

text \<open>The start of a run: no call made, nothing logged.\<close>

definition w0 :: world where
  "w0 = \<lparr>calls = 0, trace = []\<rparr>"

text \<open>A client that answers from a list, and \<^verbatim>\<open>None\<close> once the list is used up.\<close>

definition script :: "pyval list \<Rightarrow> nat \<Rightarrow> pyval" where
  "script xs i = (if i < length xs then xs ! i else PNone)"

text \<open>The answer of a minion-based \<^verbatim>\<open>status.uptime\<close> with \<^verbatim>\<open>full_return\<close>.\<close>

definition uptime_reply :: "string \<Rightarrow> int \<Rightarrow> pyval" where
  "uptime_reply node n = PDict [(node, PDict [(''ret'', PDict [(''seconds'', PInt n)])])]"

text \<open>
  A node that answers every probe and never reboots: the uptime before the reboot is
  1200, the reboot command is answered, and every poll reports 1205.
\<close>

definition stuck_replies :: "nat \<Rightarrow> pyval" where
  "stuck_replies i =
     (if i = 0 then uptime_reply ''n1'' 1200
      else if i = 1 then PDict []
      else uptime_reply ''n1'' 1205)"

definition stuck :: collab where
  "stuck = \<lparr>replies = stuck_replies, state_checker = (\<lambda>p. False), py2_lt = (\<lambda>a b. False)\<rparr>"

text \<open>A node whose polls report 1205, 1210 and then 50.\<close>

definition rebooting :: collab where
  "rebooting =
     \<lparr>replies = script [uptime_reply ''n1'' 1200, PDict [], uptime_reply ''n1'' 1205,
                        uptime_reply ''n1'' 1210, uptime_reply ''n1'' 50],
      state_checker = (\<lambda>p. False), py2_lt = (\<lambda>a b. False)\<rparr>"

text \<open>
  From the \<open>n\<close>-th call on, every answer is a probe of \<open>node\<close> that responds with an
  uptime not smaller than \<open>b\<close>.
\<close>

definition waits_forever :: "collab \<Rightarrow> bool \<Rightarrow> string \<Rightarrow> pyval \<Rightarrow> nat \<Rightarrow> bool" where
  "waits_forever c use_ssh node b n \<longleftrightarrow>
     (\<forall>i\<ge>n. no_response use_ssh (replies c i) node = Inr False \<and>
        (\<exists>u. uptime_of use_ssh node (replies c i) = Inr u \<and> \<not> py_lt c u b))"

text \<open>
  A stand-in for the aggregate checker: it accepts a payload only when it is a mapping
  that is not empty and has no state whose \<^verbatim>\<open>result\<close> is \<^verbatim>\<open>False\<close>.
\<close>

definition salt_like_checker :: "pyval \<Rightarrow> bool" where
  "salt_like_checker p =
     (case p of
        PDict states \<Rightarrow>
          states \<noteq> [] \<and> list_all (\<lambda>sv. py_get (snd sv) ''result'' \<noteq> Inr (PBool False)) states
      | _ \<Rightarrow> False)"

definition salt :: collab where
  "salt = \<lparr>replies = (\<lambda>i. PNone), state_checker = salt_like_checker, py2_lt = (\<lambda>a b. False)\<rparr>"

text \<open>A state run on one minion: the first state succeeded, the second failed.\<close>

definition two_states :: pyval where
  "two_states =
     PDict [(''minion-01'', PDict [(''ret'', PDict
       [(''ensure_es_installed'', PDict [(''result'', PBool True), (''comment'', PStr ''ok'')]),
        (''ensure_es_running'', PDict [(''result'', PBool False), (''comment'', PStr ''failed'')])])])]"

text \<open>\<^verbatim>\<open>ret_data[minion][SALT_RETURN_KEY]\<close>, the payload of a minion.\<close>

definition payload_at :: "bool \<Rightarrow> pyval \<Rightarrow> string \<Rightarrow> exn + pyval" where
  "payload_at use_ssh ret_data minion =
     (case py_getitem ret_data minion of
        Inl e \<Rightarrow> Inl e
      | Inr entry \<Rightarrow> py_getitem entry (SALT_RETURN_KEY use_ssh))"

text \<open>
  The scan of the second loop finds nothing in a payload: it is a mapping, and the
  test of the scan, \<^verbatim>\<open>values.get(SALT_RETURN_KEY, None) is not True\<close>, fails for each
  of its states.
\<close>

definition scan_passes :: "bool \<Rightarrow> pyval \<Rightarrow> bool" where
  "scan_passes use_ssh payload =
     (case payload of
        PDict states \<Rightarrow>
          list_all (\<lambda>sv. py_get (snd sv) (SALT_RETURN_KEY use_ssh) = Inr (PBool True)) states
      | _ \<Rightarrow> False)"


text \<open>A state run that failed to compile, and one that carries no state at all.\<close>

definition compile_error :: pyval where
  "compile_error =
     PDict [(''minion-01'', PDict [(''ret'', PList [PStr ''Rendering SLS failed''])])]"


text \<open>
  What one round of \<^verbatim>\<open>restart_service\<close> does to the outside (the restart, the wait of 2,
  the status check), and what follows a status check that failed with \<open>tries\<close> left
  (the warning and the wait of 5).
\<close>

definition restart_round :: "bool \<Rightarrow> string \<Rightarrow> event list" where
  "restart_round use_ssh node =
     [Log INFO RestartingService [PStr node],
      Cmd use_ssh (PStr node) ''service.restart'' [PStr ''haproxy''] [],
      Sleep 2,
      Cmd use_ssh (PStr node) ''service.status'' [PStr ''haproxy''] []]"

definition backoff :: "string \<Rightarrow> int \<Rightarrow> event list" where
  "backoff node tries = [Log WARNING RestartFailed [PStr node, PInt tries], Sleep 5]"

text \<open>A service that is up at the third status check, and one that never comes up.\<close>

definition flapping :: collab where
  "flapping =
     \<lparr>replies = script [PDict [(''n1'', PBool True)], PDict [(''n1'', PBool False)],
                        PDict [(''n1'', PBool True)], PDict [(''n1'', PBool False)],
                        PDict [(''n1'', PBool True)], PDict [(''n1'', PBool True)]],
      state_checker = salt_like_checker, py2_lt = (\<lambda>a b. False)\<rparr>"

definition service_down :: collab where
  "service_down =
     \<lparr>replies = (\<lambda>i. PDict [(''n1'', PBool False)]),
      state_checker = salt_like_checker, py2_lt = (\<lambda>a b. False)\<rparr>"



text \<open>A call of \<^verbatim>\<open>service.restart\<close>, and how many of them a trace holds.\<close>

fun is_restart :: "event \<Rightarrow> bool" where
  "is_restart (Cmd use_ssh tgt f args kwargs) = (f = ''service.restart'')"
| "is_restart _ = False"

definition restarts :: "event list \<Rightarrow> nat" where
  "restarts evs = length (filter is_restart evs)"

text \<open>
  A piece of the script that always ends, never exits the process and restarts no
  service: it only makes calls and adds events.
\<close>

definition quiet :: "'a prog \<Rightarrow> bool" where
  "quiet p \<longleftrightarrow>
     (\<forall>w. \<exists>r n evs. p w = Some (r, w\<lparr>calls := calls w + n, trace := trace w @ evs\<rparr>) \<and>
        (\<forall>k. r \<noteq> Inl (SystemExit k)) \<and> restarts evs = 0)"

text \<open>A piece of the script that does not exit the process when it ends.\<close>

definition no_exit :: "'a prog \<Rightarrow> bool" where
  "no_exit p \<longleftrightarrow> (\<forall>w r w' k. p w = Some (r, w') \<longrightarrow> r \<noteq> Inl (SystemExit k))"

text \<open>
  The world the \<^verbatim>\<open>except\<close> clause of the retry loop leaves, \<open>tries\<close> being the value
  after the decrement: the warning, with salt-ssh the wipe of the shim, and at 0 the
  last error.
\<close>

definition after_failure :: "bool \<Rightarrow> string \<Rightarrow> int \<Rightarrow> string \<Rightarrow> world \<Rightarrow> world" where
  "after_failure use_ssh minion tries e w =
     (let w1 = w\<lparr>trace := trace w @ [Log WARNING WorkFailed [PStr minion, PInt tries, PStr e]]\<rparr>;
          w2 = (if use_ssh then
                  w1\<lparr>calls := calls w1 + 1,
                     trace := trace w1 @
                       [Log WARNING WipingShim [],
                        Cmd use_ssh (PStr minion) ''test.ping'' []
                          [(''ssh_wipe'', PBool True), (''full_return'', PBool True)]]\<rparr>
                else w1)
      in if tries = 0 then w2\<lparr>trace := trace w2 @ [Log ERROR FailedOnMinion [PStr minion]]\<rparr>
         else w2)"

text \<open>As \<open>quiet\<close>, but for at most \<open>k\<close> restarts of a service.\<close>

definition bounded :: "nat \<Rightarrow> 'a prog \<Rightarrow> bool" where
  "bounded k p \<longleftrightarrow>
     (\<forall>w. \<exists>r n evs. p w = Some (r, w\<lparr>calls := calls w + n, trace := trace w @ evs\<rparr>) \<and>
        (\<forall>j. r \<noteq> Inl (SystemExit j)) \<and> restarts evs \<le> k)"

text \<open>A piece of the script that, when it ends, has raised an exception.\<close>

definition raises :: "'a prog \<Rightarrow> bool" where
  "raises p \<longleftrightarrow> (\<forall>w r w'. p w = Some (r, w') \<longrightarrow> (\<exists>e. r = Inl (PyExc e)))"

text \<open>
  Scenarios of a whole run on \<^verbatim>\<open>minion-01\<close> (and \<^verbatim>\<open>minion-02\<close>): the answers to the ping,
  a state run that succeeded, and the options of the command line.
\<close>

definition ping_one :: pyval where
  "ping_one = PDict [(''minion-01'', PDict [(''ret'', PBool True)])]"

definition ping_two :: pyval where
  "ping_two = PDict [(''minion-01'', PDict [(''ret'', PBool True)]),
                     (''minion-02'', PDict [(''ret'', PBool True)])]"

definition good_state :: pyval where
  "good_state =
     PDict [(''minion-01'', PDict [(''ret'', PDict
       [(''haproxy_cfg'', PDict [(''result'', PBool True), (''comment'', PStr ''ok'')])])])]"

definition run_options :: "string \<Rightarrow> string \<Rightarrow> options" where
  "run_options targets act =
     \<lparr>opt_minions = Some targets, opt_test = False, opt_use_ssh = False,
      opt_reboot = False, opt_action = act\<rparr>"

text \<open>The configuration is applied, and the service is down at every status check.\<close>

definition never_up_replies :: "nat \<Rightarrow> pyval" where
  "never_up_replies i =
     (if i = 0 then ping_one
      else if i = 1 then good_state
      else PDict [(''minion-01'', PBool False)])"

definition never_up :: collab where
  "never_up = \<lparr>replies = never_up_replies, state_checker = salt_like_checker,
               py2_lt = (\<lambda>a b. False)\<rparr>"

text \<open>After the ping, every state run fails to compile.\<close>

definition bad_sls_replies :: "nat \<Rightarrow> pyval" where
  "bad_sls_replies i = (if i = 0 then ping_two else compile_error)"

definition bad_sls :: collab where
  "bad_sls = \<lparr>replies = bad_sls_replies, state_checker = salt_like_checker,
              py2_lt = (\<lambda>a b. False)\<rparr>"

text \<open>Every answer is a state run that failed to compile.\<close>

definition broken :: collab where
  "broken = \<lparr>replies = (\<lambda>i. compile_error), state_checker = salt_like_checker,
             py2_lt = (\<lambda>a b. False)\<rparr>"

text \<open>What one run of \<^verbatim>\<open>update_system\<close> on \<^verbatim>\<open>minion-01\<close> leaves against that client.\<close>

definition broken_upgrade :: "world \<Rightarrow> world" where
  \<open>broken_upgrade w =
     w\<lparr>calls := calls w + 1,
       trace := trace w @
         [Log INFO UpdatingPackages [PStr ''minion-01''],
          Cmd False (PStr ''minion-01'') ''pkg.upgrade'' [PStr ''refresh="true"'']
            [(''full_return'', PBool True)],
          Log DEBUG CheckingReturnData [compile_error],
          Log ERROR SaltRunFailed [],
          Log ERROR Payload [compile_error]]\<rparr>\<close>

text \<open>After the ping, every package upgrade succeeds.\<close>

definition upgraded_replies :: "nat \<Rightarrow> pyval" where
  "upgraded_replies i = (if i = 0 then ping_one else good_state)"

definition upgraded :: collab where
  "upgraded = \<lparr>replies = upgraded_replies, state_checker = salt_like_checker,
               py2_lt = (\<lambda>a b. False)\<rparr>"

text \<open>The status query before the reboot returns no data.\<close>

definition no_data :: collab where
  "no_data = \<lparr>replies = (\<lambda>i. PDict [(''minion-01'', PDict [(''ret'', PDict [])])]),
              state_checker = salt_like_checker, py2_lt = (\<lambda>a b. False)\<rparr>"

text \<open>
  A fleet of one node that answers the ping, reports an uptime of 1200, takes the
  reboot command and from then on answers every probe with an uptime of 1205.
\<close>

definition hanging_replies :: "nat \<Rightarrow> pyval" where
  "hanging_replies i =
     (if i = 0 then ping_one
      else if i = 1 then uptime_reply ''minion-01'' 1200
      else if i = 2 then PDict []
      else uptime_reply ''minion-01'' 1205)"

definition hanging :: collab where
  "hanging = \<lparr>replies = hanging_replies, state_checker = salt_like_checker,
              py2_lt = (\<lambda>a b. False)\<rparr>"



section \<open>Facts about the model\<close>

lemmas prog_defs = unit_def raise_def bind_def seq_def lift_def emit_def log_def sleep_def
  client_cmd_def

subsection \<open>The poll loop of \<^verbatim>\<open>restart_host\<close>\<close>

text \<open>A round in which the probe responds with an uptime that is not smaller.\<close>

lemma restart_host_body_waiting:
  assumes "no_response use_ssh (replies c (calls w)) node = Inr False"
    and "uptime_of use_ssh node (replies c (calls w)) = Inr u"
    and "\<not> py_lt c u b"
  shows "restart_host_body c use_ssh node b t w =
           Some (Inr (Next t),
                 w\<lparr>calls := calls w + 1,
                   trace := trace w @
                     [Log INFO PingingHost [PStr node],
                      Cmd use_ssh (PStr node) ''status.uptime'' [] [(''full_return'', PBool True)],
                      Log INFO WaitingForReboot [PStr node],
                      Sleep 10]\<rparr>)"
  using assms
  by (auto simp: restart_host_body_def prog_defs uptime_of_def split: sum.splits)

lemma restart_host_loop_waits_forever:
  assumes "restart_host_loop c use_ssh node b t w = Some y"
  shows "\<not> (0 < t \<and> waits_forever c use_ssh node b (calls w))"
proof (rule restart_host_loop.raw_induct
    [where P = "\<lambda>c use_ssh node b t w y. \<not> (0 < t \<and> waits_forever c use_ssh node b (calls w))",
     OF _ assms])
  fix loop c use_ssh node b t w y
  assume IH: "\<And>c use_ssh node b t w y. loop c use_ssh node b t w = Some y \<Longrightarrow>
      \<not> (0 < t \<and> waits_forever c use_ssh node b (calls w))"
    and step: "(if 0 < t
      then case restart_host_body c use_ssh node b t w of
           None \<Rightarrow> None | Some (Inl e, w') \<Rightarrow> Some (Inl e, w')
           | Some (Inr (Next timeout'), w') \<Rightarrow> loop c use_ssh node b timeout' w'
           | Some (Inr Return, w') \<Rightarrow> Some (Inr (), w')
      else seq (log ERROR RebootTimedOut [PStr node]) (raise (PyExc ''Exception'')) w) = Some y"
  show "\<not> (0 < t \<and> waits_forever c use_ssh node b (calls w))"
  proof
    assume stuck: "0 < t \<and> waits_forever c use_ssh node b (calls w)"
    then obtain u where u: "no_response use_ssh (replies c (calls w)) node = Inr False"
        "uptime_of use_ssh node (replies c (calls w)) = Inr u" "\<not> py_lt c u b"
      unfolding waits_forever_def by blast
    let ?w' = "w\<lparr>calls := calls w + 1,
                   trace := trace w @
                     [Log INFO PingingHost [PStr node],
                      Cmd use_ssh (PStr node) ''status.uptime'' [] [(''full_return'', PBool True)],
                      Log INFO WaitingForReboot [PStr node],
                      Sleep 10]\<rparr>"
    from step stuck have "loop c use_ssh node b t ?w' = Some y"
      by (simp add: restart_host_body_waiting [OF u])
    moreover from stuck have "0 < t \<and> waits_forever c use_ssh node b (calls ?w')"
      unfolding waits_forever_def by simp
    ultimately show False using IH by blast
  qed
qed

text \<open>
  The budget is only spent by a probe that does not respond: while the node responds
  with the old boot's uptime, the loop does not end.
\<close>

lemma restart_host_loop_never_returns:
  assumes "0 < t" and "waits_forever c use_ssh node b (calls w)"
  shows "restart_host_loop c use_ssh node b t w = None"
proof (cases "restart_host_loop c use_ssh node b t w")
  case None
  then show ?thesis .
next
  case (Some y)
  from restart_host_loop_waits_forever [OF this] assms show ?thesis by simp
qed

lemma waits_forever_stuck: "waits_forever stuck False ''n1'' (PInt 1200) 2"
  by (simp add: waits_forever_def stuck_def stuck_replies_def uptime_reply_def no_response_def
      uptime_of_def py_getitem_def SALT_RETURN_KEY_def)

lemma restart_host_stuck_prefix:
  "restart_host stuck False ''n1'' w0 =
     restart_host_loop stuck False ''n1'' (PInt 1200) 300
       \<lparr>calls = 2, trace = [Log INFO RestartingHost [PStr ''n1''],
         Cmd False (PStr ''n1'') ''status.uptime'' [] [(''full_return'', PBool True)],
         Cmd False (PStr ''n1'') ''system.reboot'' [] [(''full_return'', PBool True)]]\<rparr>"
  by (simp add: restart_host_def do_salt_call_def prog_defs stuck_def stuck_replies_def
      uptime_reply_def w0_def py_getitem_def SALT_RETURN_KEY_def del: One_nat_def)

section \<open>The claims\<close>

text \<open>
  C1 (the code departs from it). The claim: in the poll loop of \<^verbatim>\<open>restart_host\<close> a probe
  that responds with an uptime not smaller than the baseline still costs one period of
  the timeout budget, so that with baseline 1200 and every poll reporting 1205 the
  waiter gives up after 30 polls. The source decrements \<^verbatim>\<open>timeout\<close> only in the branch
  of a probe that does not respond. Here: such a round hands the budget on unchanged
  (300 stays 300), and the run of \<^verbatim>\<open>restart_host\<close> against that node never returns, so
  it never reports the timeout.
\<close>

theorem restart_host_never_times_out:
  "restart_host_body stuck False ''n1'' (PInt 1200) 300 \<lparr>calls = 2, trace = []\<rparr> =
     Some (Inr (Next 300),
           \<lparr>calls = 3,
            trace = [Log INFO PingingHost [PStr ''n1''],
                     Cmd False (PStr ''n1'') ''status.uptime'' [] [(''full_return'', PBool True)],
                     Log INFO WaitingForReboot [PStr ''n1''],
                     Sleep 10]\<rparr>)
   \<and> restart_host stuck False ''n1'' w0 = None"
proof
  show "restart_host_body stuck False ''n1'' (PInt 1200) 300 \<lparr>calls = 2, trace = []\<rparr> =
     Some (Inr (Next 300),
           \<lparr>calls = 3,
            trace = [Log INFO PingingHost [PStr ''n1''],
                     Cmd False (PStr ''n1'') ''status.uptime'' [] [(''full_return'', PBool True)],
                     Log INFO WaitingForReboot [PStr ''n1''],
                     Sleep 10]\<rparr>)"
    by (simp add: restart_host_body_def prog_defs stuck_def stuck_replies_def uptime_reply_def
        no_response_def py_getitem_def SALT_RETURN_KEY_def)
  have "restart_host_loop stuck False ''n1'' (PInt 1200) 300
       \<lparr>calls = 2, trace = [Log INFO RestartingHost [PStr ''n1''],
         Cmd False (PStr ''n1'') ''status.uptime'' [] [(''full_return'', PBool True)],
         Cmd False (PStr ''n1'') ''system.reboot'' [] [(''full_return'', PBool True)]]\<rparr> = None"
    by (rule restart_host_loop_never_returns) (simp_all add: waits_forever_stuck)
  then show "restart_host stuck False ''n1'' w0 = None"
    by (simp only: restart_host_stuck_prefix)
qed

text \<open>
  C4 (the code departs from it). The claim: for a state run with a state whose
  \<^verbatim>\<open>result\<close> is not \<^verbatim>\<open>True\<close> and that the aggregate checker rejects,
  \<^verbatim>\<open>check_salt_run_status\<close> reports the first such state with its comment. The scan of
  the source tests \<^verbatim>\<open>values.get(SALT_RETURN_KEY, None)\<close>, not \<^verbatim>\<open>values.get('result')\<close>:
  a state's own mapping has no such key, so the first state of the iteration is
  reported whatever its result. Here the first state succeeded and the second failed;
  the report carries the status \<^verbatim>\<open>True\<close> and the comment of the first.
\<close>

theorem check_salt_run_status_reports_first_state:
  "check_salt_run_status salt False two_states w0 =
     Some (Inr False,
           \<lparr>calls = 0,
            trace = [Log DEBUG CheckingReturnData [two_states],
                     Log ERROR StateFailed [PStr ''minion-01'', PBool True],
                     Log ERROR StateComment [PStr ''ok''],
                     Log ERROR EntireReturn [two_states]]\<rparr>)"
  by (simp add: check_salt_run_status_def prog_defs py_keys_def py_getitem_def py_get_def
      py_items_def SALT_RETURN_KEY_def salt_def salt_like_checker_def two_states_def w0_def)

subsection \<open>What a confirmed reboot rests on\<close>

lemma restart_host_body_calls:
  "restart_host_body c use_ssh node b t w = Some (r, w') \<Longrightarrow> calls w' = calls w + 1"
  by (auto simp: restart_host_body_def prog_defs split: sum.splits if_splits)

lemma restart_host_body_Return:
  "restart_host_body c use_ssh node b t w = Some (Inr Return, w') \<Longrightarrow>
     \<exists>u. uptime_of use_ssh node (replies c (calls w)) = Inr u \<and> py_lt c u b"
  by (auto simp: restart_host_body_def prog_defs uptime_of_def split: sum.splits if_splits)

lemma restart_host_loop_confirmed:
  assumes "restart_host_loop c use_ssh node b t w = Some y"
  shows "\<forall>w'. y = (Inr (), w') \<longrightarrow> calls w < calls w' \<and>
           (\<exists>u. uptime_of use_ssh node (replies c (calls w' - 1)) = Inr u \<and> py_lt c u b)"
proof (rule restart_host_loop.raw_induct
    [where P = "\<lambda>c use_ssh node b t w y. \<forall>w'. y = (Inr (), w') \<longrightarrow> calls w < calls w' \<and>
           (\<exists>u. uptime_of use_ssh node (replies c (calls w' - 1)) = Inr u \<and> py_lt c u b)",
     OF _ assms])
  fix loop c use_ssh node b t w y
  assume IH: "\<And>c use_ssh node b t w y. loop c use_ssh node b t w = Some y \<Longrightarrow>
      \<forall>w'. y = (Inr (), w') \<longrightarrow> calls w < calls w' \<and>
           (\<exists>u. uptime_of use_ssh node (replies c (calls w' - 1)) = Inr u \<and> py_lt c u b)"
    and step: "(if 0 < t
      then case restart_host_body c use_ssh node b t w of
           None \<Rightarrow> None | Some (Inl e, w') \<Rightarrow> Some (Inl e, w')
           | Some (Inr (Next timeout'), w') \<Rightarrow> loop c use_ssh node b timeout' w'
           | Some (Inr Return, w') \<Rightarrow> Some (Inr (), w')
      else seq (log ERROR RebootTimedOut [PStr node]) (raise (PyExc ''Exception'')) w) = Some y"
  show "\<forall>w'. y = (Inr (), w') \<longrightarrow> calls w < calls w' \<and>
           (\<exists>u. uptime_of use_ssh node (replies c (calls w' - 1)) = Inr u \<and> py_lt c u b)"
  proof (cases "0 < t")
    case False
    with step show ?thesis by (auto simp: prog_defs)
  next
    case True
    show ?thesis
    proof (cases "restart_host_body c use_ssh node b t w")
      case None
      with step True show ?thesis by simp
    next
      case (Some rw)
      obtain r w1 where rw: "rw = (r, w1)" by (cases rw)
      note body = Some [unfolded rw]
      have c1: "calls w1 = calls w + 1" by (rule restart_host_body_calls [OF body])
      show ?thesis
      proof (cases r)
        case (Inl e)
        with step True body show ?thesis by auto
      next
        case (Inr f)
        show ?thesis
        proof (cases f)
          case (Next t')
          with step True body Inr have "loop c use_ssh node b t' w1 = Some y" by simp
          from IH [OF this] c1 show ?thesis by auto
        next
          case Return
          with step True body Inr have y: "y = (Inr (), w1)" by simp
          from restart_host_body_Return [OF body [unfolded Inr Return]] c1 y
          show ?thesis by auto
        qed
      qed
    qed
  qed
qed

lemma do_salt_call_calls:
  "do_salt_call c use_ssh node f [] w = Some (Inr ret, w') \<Longrightarrow>
     ret = replies c (calls w) \<and> calls w' = calls w + 1"
  by (auto simp: do_salt_call_def prog_defs split: sum.splits if_splits)

lemma restart_host_confirmed:
  assumes "restart_host c use_ssh node w = Some (Inr (), w')"
  shows "\<exists>b u. uptime_of use_ssh node (replies c (calls w)) = Inr b \<and>
           calls w + 2 < calls w' \<and>
           uptime_of use_ssh node (replies c (calls w' - 1)) = Inr u \<and> py_lt c u b"
proof -
  from assms obtain w1 b where
    d: "do_salt_call c use_ssh node ''status.uptime'' []
          (w\<lparr>trace := trace w @ [Log INFO RestartingHost [PStr node]]\<rparr>)
          = Some (Inr (replies c (calls w)), w1)"
    and c1: "calls w1 = calls w + 1"
    and b: "uptime_of use_ssh node (replies c (calls w)) = Inr b"
    and l: "restart_host_loop c use_ssh node b 300
              (w1\<lparr>calls := calls w1 + 1, trace := trace w1 @
                 [Cmd use_ssh (PStr node) ''system.reboot'' [] [(''full_return'', PBool True)]]\<rparr>)
            = Some (Inr (), w')"
    by (auto simp: restart_host_def prog_defs uptime_of_def split: option.splits sum.splits
        dest!: do_salt_call_calls)
  from restart_host_loop_confirmed [OF l] c1 b show ?thesis by auto
qed

lemma restart_host_rebooting:
  "restart_host rebooting False ''n1'' w0 =
     Some (Inr (),
           \<lparr>calls = 5,
            trace =
              [Log INFO RestartingHost [PStr ''n1''],
               Cmd False (PStr ''n1'') ''status.uptime'' [] [(''full_return'', PBool True)],
               Cmd False (PStr ''n1'') ''system.reboot'' [] [(''full_return'', PBool True)],
               Log INFO PingingHost [PStr ''n1''],
               Cmd False (PStr ''n1'') ''status.uptime'' [] [(''full_return'', PBool True)],
               Log INFO WaitingForReboot [PStr ''n1''], Sleep 10,
               Log INFO PingingHost [PStr ''n1''],
               Cmd False (PStr ''n1'') ''status.uptime'' [] [(''full_return'', PBool True)],
               Log INFO WaitingForReboot [PStr ''n1''], Sleep 10,
               Log INFO PingingHost [PStr ''n1''],
               Cmd False (PStr ''n1'') ''status.uptime'' [] [(''full_return'', PBool True)],
               Log INFO RebootCompleted [PStr ''n1'']]\<rparr>)"
  by (simp add: restart_host_def rebooting_def w0_def script_def uptime_reply_def
      do_salt_call_def prog_defs py_getitem_def SALT_RETURN_KEY_def
      restart_host_loop.simps restart_host_body_def no_response_def)

text \<open>
  C5. \<^verbatim>\<open>restart_host\<close> returns only when the last probe it made answered with an uptime
  strictly smaller than the uptime read before the reboot (for two integers, the order
  of the integers); a probe that responds with an uptime that is not smaller ends its
  round of the loop with \<open>Next\<close>, never with \<open>Return\<close>. With baseline 1200 and polls
  reporting 1205, 1210 and 50 the call returns at the third poll: two rounds of
  waiting, then the completed reboot.
\<close>

theorem reboot_confirmed_only_by_smaller_uptime:
  "(restart_host c use_ssh node w = Some (Inr (), w') \<longrightarrow>
      (\<exists>b u. uptime_of use_ssh node (replies c (calls w)) = Inr b \<and>
              calls w + 2 < calls w' \<and>
              uptime_of use_ssh node (replies c (calls w' - 1)) = Inr u \<and>
              py_lt c u b \<and>
              (\<forall>x y. u = PInt x \<and> b = PInt y \<longrightarrow> x < y)))
   \<and> (no_response use_ssh (replies c (calls w)) node = Inr False \<and>
      uptime_of use_ssh node (replies c (calls w)) = Inr (PInt x) \<and> y \<le> x \<longrightarrow>
      (\<exists>w1. restart_host_body c use_ssh node (PInt y) t w = Some (Inr (Next t), w1)))
   \<and> restart_host rebooting False ''n1'' w0 =
       Some (Inr (),
           \<lparr>calls = 5,
            trace =
              [Log INFO RestartingHost [PStr ''n1''],
               Cmd False (PStr ''n1'') ''status.uptime'' [] [(''full_return'', PBool True)],
               Cmd False (PStr ''n1'') ''system.reboot'' [] [(''full_return'', PBool True)],
               Log INFO PingingHost [PStr ''n1''],
               Cmd False (PStr ''n1'') ''status.uptime'' [] [(''full_return'', PBool True)],
               Log INFO WaitingForReboot [PStr ''n1''], Sleep 10,
               Log INFO PingingHost [PStr ''n1''],
               Cmd False (PStr ''n1'') ''status.uptime'' [] [(''full_return'', PBool True)],
               Log INFO WaitingForReboot [PStr ''n1''], Sleep 10,
               Log INFO PingingHost [PStr ''n1''],
               Cmd False (PStr ''n1'') ''status.uptime'' [] [(''full_return'', PBool True)],
               Log INFO RebootCompleted [PStr ''n1'']]\<rparr>)"
proof (intro conjI impI)
  assume "restart_host c use_ssh node w = Some (Inr (), w')"
  from restart_host_confirmed [OF this]
  show "\<exists>b u. uptime_of use_ssh node (replies c (calls w)) = Inr b \<and>
              calls w + 2 < calls w' \<and>
              uptime_of use_ssh node (replies c (calls w' - 1)) = Inr u \<and>
              py_lt c u b \<and>
              (\<forall>x y. u = PInt x \<and> b = PInt y \<longrightarrow> x < y)"
    by auto
next
  assume "no_response use_ssh (replies c (calls w)) node = Inr False \<and>
      uptime_of use_ssh node (replies c (calls w)) = Inr (PInt x) \<and> y \<le> x"
  then show "\<exists>w1. restart_host_body c use_ssh node (PInt y) t w = Some (Inr (Next t), w1)"
    by (simp add: restart_host_body_waiting)
next
  show "restart_host rebooting False ''n1'' w0 =
       Some (Inr (),
           \<lparr>calls = 5,
            trace =
              [Log INFO RestartingHost [PStr ''n1''],
               Cmd False (PStr ''n1'') ''status.uptime'' [] [(''full_return'', PBool True)],
               Cmd False (PStr ''n1'') ''system.reboot'' [] [(''full_return'', PBool True)],
               Log INFO PingingHost [PStr ''n1''],
               Cmd False (PStr ''n1'') ''status.uptime'' [] [(''full_return'', PBool True)],
               Log INFO WaitingForReboot [PStr ''n1''], Sleep 10,
               Log INFO PingingHost [PStr ''n1''],
               Cmd False (PStr ''n1'') ''status.uptime'' [] [(''full_return'', PBool True)],
               Log INFO WaitingForReboot [PStr ''n1''], Sleep 10,
               Log INFO PingingHost [PStr ''n1''],
               Cmd False (PStr ''n1'') ''status.uptime'' [] [(''full_return'', PBool True)],
               Log INFO RebootCompleted [PStr ''n1'']]\<rparr>)"
    by (rule restart_host_rebooting)
qed

theorem reboot_confirmed_only_by_smaller_uptime_witness:
  "(\<exists>w'. restart_host rebooting False ''n1'' w0 = Some (Inr (), w') \<and> calls w' = 5)
   \<and> uptime_of False ''n1'' (replies rebooting 0) = Inr (PInt 1200)
   \<and> uptime_of False ''n1'' (replies rebooting 4) = Inr (PInt 50)
   \<and> py_lt rebooting (PInt 50) (PInt 1200)
   \<and> no_response False (replies rebooting 2) ''n1'' = Inr False
   \<and> uptime_of False ''n1'' (replies rebooting 2) = Inr (PInt 1205)
   \<and> (\<exists>w1. restart_host_body rebooting False ''n1'' (PInt 1200) 300 \<lparr>calls = 2, trace = []\<rparr>
             = Some (Inr (Next 300), w1))"
proof -
  have u: "uptime_of False ''n1'' (replies rebooting 0) = Inr (PInt 1200)"
      "uptime_of False ''n1'' (replies rebooting 4) = Inr (PInt 50)"
      "uptime_of False ''n1'' (replies rebooting 2) = Inr (PInt 1205)"
      "no_response False (replies rebooting 2) ''n1'' = Inr False"
    by (simp_all add: uptime_of_def no_response_def rebooting_def script_def uptime_reply_def
        py_getitem_def SALT_RETURN_KEY_def)
  note at_start = reboot_confirmed_only_by_smaller_uptime [of rebooting False "''n1''" w0]
  note at_poll = reboot_confirmed_only_by_smaller_uptime
    [of rebooting False "''n1''" "\<lparr>calls = 2, trace = []\<rparr>" _ 1205 1200 300]
  from at_start at_poll u show ?thesis by (auto simp: w0_def)
qed

subsection \<open>The loops of \<^verbatim>\<open>check_salt_run_status\<close>\<close>

lemma checker_loop_eq:
  assumes "list_all (\<lambda>m. \<exists>p. payload_at use_ssh rd m = Inr p) ms"
  shows "checker_loop c use_ssh rd ms ok =
           Inr (ok \<and> list_all (\<lambda>m. \<exists>p. payload_at use_ssh rd m = Inr p \<and> state_checker c p) ms)"
  using assms
  by (induction ms arbitrary: ok) (auto simp: payload_at_def split: sum.splits)

lemma scan_states_passes:
  assumes "list_all (\<lambda>sv. py_get (snd sv) (SALT_RETURN_KEY use_ssh) = Inr (PBool True)) states"
  shows "scan_states use_ssh rd m states w = Some (Inr None, w)"
  using assms
  by (induction states) (auto simp: prog_defs)






lemma scan_minions_list:
  assumes "list_all (\<lambda>m. \<exists>p. payload_at use_ssh rd m = Inr p \<and> scan_passes use_ssh p) pre"
    and "payload_at use_ssh rd minion = Inr (PList errors)"
  shows "scan_minions use_ssh rd (pre @ minion # post) w =
     Some (Inr (Some False),
           w\<lparr>trace := trace w @ [Log ERROR SaltRunFailed [], Log ERROR Payload [rd]]\<rparr>)"
  using assms
proof (induction pre)
  case Nil
  then show ?case
    by (auto simp: prog_defs payload_at_def split: sum.splits)
next
  case (Cons m ms)
  then obtain p where p: "payload_at use_ssh rd m = Inr p" "scan_passes use_ssh p" by auto
  then obtain states where s: "p = PDict states"
    "list_all (\<lambda>sv. py_get (snd sv) (SALT_RETURN_KEY use_ssh) = Inr (PBool True)) states"
    by (auto simp: scan_passes_def split: pyval.splits)
  from p(1) obtain entry where e: "py_getitem rd m = Inr entry"
      "py_getitem entry (SALT_RETURN_KEY use_ssh) = Inr p"
    by (auto simp: payload_at_def split: sum.splits)
  have "scan_minions use_ssh rd ((m # ms) @ minion # post) w =
        scan_minions use_ssh rd (ms @ minion # post) w"
    using e s by (simp add: prog_defs py_items_def scan_states_passes)
  with Cons show ?case by simp
qed

lemma checker_loop_rejects:
  assumes "list_all (\<lambda>m. \<exists>p. payload_at use_ssh rd m = Inr p) ms"
    and "list_ex (\<lambda>m. \<exists>p. payload_at use_ssh rd m = Inr p \<and> \<not> state_checker c p) ms"
  shows "checker_loop c use_ssh rd ms True = Inr False"
proof -
  from assms(2) obtain m p where "m \<in> set ms" "payload_at use_ssh rd m = Inr p"
      "\<not> state_checker c p"
    by (auto simp: list_ex_iff)
  have "\<not> list_all (\<lambda>m. \<exists>p. payload_at use_ssh rd m = Inr p \<and> state_checker c p) ms"
  proof
    assume "list_all (\<lambda>m. \<exists>p. payload_at use_ssh rd m = Inr p \<and> state_checker c p) ms"
    with \<open>m \<in> set ms\<close> obtain p' where "payload_at use_ssh rd m = Inr p'" "state_checker c p'"
      by (auto simp: list_all_iff)
    with \<open>payload_at use_ssh rd m = Inr p\<close> \<open>\<not> state_checker c p\<close> show False by simp
  qed
  with checker_loop_eq [OF assms(1), of c True] show ?thesis by simp
qed

text \<open>
  C8. A payload that is a list is a compile failure whatever the list holds: when the
  aggregate checker rejects it (\<^verbatim>\<open>salt.utils.check_state_result\<close> rejects whatever is not
  a mapping) and the scan has found nothing in the targets iterated before it,
  \<^verbatim>\<open>check_salt_run_status\<close> logs that the run failed, logs the whole return data and
  returns \<^verbatim>\<open>False\<close>; nothing else is logged, and the result does not depend on the
  elements of the list.
\<close>

theorem list_payload_is_compile_failure:
  assumes "ret_data = PDict kvs"
    and "map fst kvs = pre @ minion # post"
    and "list_all (\<lambda>m. \<exists>p. payload_at use_ssh ret_data m = Inr p \<and> scan_passes use_ssh p) pre"
    and "payload_at use_ssh ret_data minion = Inr (PList errors)"
    and "\<not> state_checker c (PList errors)"
    and "list_all (\<lambda>m. \<exists>p. payload_at use_ssh ret_data m = Inr p) post"
  shows "check_salt_run_status c use_ssh ret_data w =
     Some (Inr False,
           w\<lparr>trace := trace w @
              [Log DEBUG CheckingReturnData [ret_data],
               Log ERROR SaltRunFailed [],
               Log ERROR Payload [ret_data]]\<rparr>)"
proof -
  have all: "list_all (\<lambda>m. \<exists>p. payload_at use_ssh ret_data m = Inr p) (pre @ minion # post)"
    using assms(3,4,6) by (auto simp: list_all_iff)
  have ex: "list_ex (\<lambda>m. \<exists>p. payload_at use_ssh ret_data m = Inr p \<and> \<not> state_checker c p)
      (pre @ minion # post)"
    using assms(4,5) by (auto simp: list_ex_iff)
  have chk: "checker_loop c use_ssh ret_data (pre @ minion # post) True = Inr False"
    by (rule checker_loop_rejects [OF all ex])
  show ?thesis
    using assms(1,2) chk scan_minions_list [OF assms(3,4), of post]
    by (simp add: check_salt_run_status_def prog_defs py_keys_def)
qed

theorem list_payload_is_compile_failure_witness:
  "payload_at False compile_error ''minion-01'' = Inr (PList [PStr ''Rendering SLS failed''])
   \<and> \<not> state_checker salt (PList [PStr ''Rendering SLS failed''])
   \<and> check_salt_run_status salt False compile_error w0 =
       Some (Inr False,
             \<lparr>calls = 0,
              trace = [Log DEBUG CheckingReturnData [compile_error],
                       Log ERROR SaltRunFailed [],
                       Log ERROR Payload [compile_error]]\<rparr>)"
  using list_payload_is_compile_failure
    [of compile_error "[(''minion-01'', PDict [(''ret'', PList [PStr ''Rendering SLS failed''])])]"
        "[]" "''minion-01''" "[]" False "[PStr ''Rendering SLS failed'']" salt w0]
  by (simp add: compile_error_def payload_at_def py_getitem_def SALT_RETURN_KEY_def salt_def
      salt_like_checker_def w0_def)


subsection \<open>\<^verbatim>\<open>restart_service\<close>\<close>

lemma restart_service_body_eq:
  assumes "py_getitem (replies c (calls w + 1)) node = Inr status"
  shows "restart_service_body c use_ssh node tries w =
     (if py_truth status then
        Some (Inr (tries, True),
              w\<lparr>calls := calls w + 2, trace := trace w @ restart_round use_ssh node\<rparr>)
      else if tries - 1 = 0 then
        Some (Inl (PyExc ''Exception''),
              w\<lparr>calls := calls w + 2, trace := trace w @ restart_round use_ssh node\<rparr>)
      else
        Some (Inr (tries - 1, False),
              w\<lparr>calls := calls w + 2,
                trace := trace w @ restart_round use_ssh node @ backoff node (tries - 1)\<rparr>))"
  using assms
  by (simp add: restart_service_body_def prog_defs restart_round_def backoff_def Let_def)

lemma restart_service_loop_done:
  "restart_service_loop c use_ssh node tries True w = Some (Inr (), w)"
  by (simp add: restart_service_loop.simps)

lemma restart_service_loop_up:
  assumes "py_getitem (replies c (calls w + 1)) node = Inr status" and "py_truth status"
  shows "restart_service_loop c use_ssh node tries False w =
     Some (Inr (), w\<lparr>calls := calls w + 2, trace := trace w @ restart_round use_ssh node\<rparr>)"
  using assms
  by (subst restart_service_loop.simps)
     (simp add: restart_service_body_eq restart_service_loop_done)

lemma restart_service_loop_down:
  assumes "py_getitem (replies c (calls w + 1)) node = Inr status" and "\<not> py_truth status"
    and "tries \<noteq> 1"
  shows "restart_service_loop c use_ssh node tries False w =
     restart_service_loop c use_ssh node (tries - 1) False
       (w\<lparr>calls := calls w + 2,
          trace := trace w @ restart_round use_ssh node @ backoff node (tries - 1)\<rparr>)"
  using assms
  by (subst restart_service_loop.simps) (simp add: restart_service_body_eq)

lemma restart_service_loop_last:
  assumes "py_getitem (replies c (calls w + 1)) node = Inr status" and "\<not> py_truth status"
  shows "restart_service_loop c use_ssh node 1 False w =
     Some (Inl (PyExc ''Exception''),
           w\<lparr>calls := calls w + 2, trace := trace w @ restart_round use_ssh node\<rparr>)"
  using assms
  by (subst restart_service_loop.simps) (simp add: restart_service_body_eq)

text \<open>
  C10. \<^verbatim>\<open>restart_service\<close> restarts, waits 2, checks the status. A status that is true
  ends the call at once; a status that is false costs one of 3 local tries and is
  followed by a warning, a wait of 5 and a whole new round, but for the third, after
  which the call raises. \<open>s1\<close>, \<open>s2\<close> and \<open>s3\<close> are the statuses of the node in the
  answers to the first, second and third status check.
\<close>

theorem restart_service_rounds:
  "(py_getitem (replies c (calls w + 1)) node = Inr s1 \<and> py_truth s1 \<longrightarrow>
      restart_service c use_ssh node w =
        Some (Inr (), w\<lparr>calls := calls w + 2, trace := trace w @ restart_round use_ssh node\<rparr>))
   \<and> (py_getitem (replies c (calls w + 1)) node = Inr s1 \<and> \<not> py_truth s1 \<and>
      py_getitem (replies c (calls w + 3)) node = Inr s2 \<and> py_truth s2 \<longrightarrow>
      restart_service c use_ssh node w =
        Some (Inr (),
              w\<lparr>calls := calls w + 4,
                trace := trace w @ restart_round use_ssh node @ backoff node 2 @
                         restart_round use_ssh node\<rparr>))
   \<and> (py_getitem (replies c (calls w + 1)) node = Inr s1 \<and> \<not> py_truth s1 \<and>
      py_getitem (replies c (calls w + 3)) node = Inr s2 \<and> \<not> py_truth s2 \<and>
      py_getitem (replies c (calls w + 5)) node = Inr s3 \<and> py_truth s3 \<longrightarrow>
      restart_service c use_ssh node w =
        Some (Inr (),
              w\<lparr>calls := calls w + 6,
                trace := trace w @ restart_round use_ssh node @ backoff node 2 @
                         restart_round use_ssh node @ backoff node 1 @
                         restart_round use_ssh node\<rparr>))
   \<and> (py_getitem (replies c (calls w + 1)) node = Inr s1 \<and> \<not> py_truth s1 \<and>
      py_getitem (replies c (calls w + 3)) node = Inr s2 \<and> \<not> py_truth s2 \<and>
      py_getitem (replies c (calls w + 5)) node = Inr s3 \<and> \<not> py_truth s3 \<longrightarrow>
      restart_service c use_ssh node w =
        Some (Inl (PyExc ''Exception''),
              w\<lparr>calls := calls w + 6,
                trace := trace w @ restart_round use_ssh node @ backoff node 2 @
                         restart_round use_ssh node @ backoff node 1 @
                         restart_round use_ssh node\<rparr>))"
proof -
  let ?round = "restart_round use_ssh node"
  let ?w1 = "w\<lparr>calls := calls w + 2, trace := trace w @ ?round @ backoff node 2\<rparr>"
  let ?w2 = "?w1\<lparr>calls := calls ?w1 + 2, trace := trace ?w1 @ ?round @ backoff node 1\<rparr>"
  have three: "calls ?w1 + 1 = calls w + 3" and five: "calls ?w2 + 1 = calls w + 5"
    by simp_all
  have first: "restart_service c use_ssh node w = restart_service_loop c use_ssh node 2 False ?w1"
    if "py_getitem (replies c (calls w + 1)) node = Inr s1" "\<not> py_truth s1"
    using restart_service_loop_down [where tries = 3 and use_ssh = use_ssh, OF that] by (simp add: restart_service_def)
  have second: "restart_service_loop c use_ssh node 2 False ?w1 =
      restart_service_loop c use_ssh node 1 False ?w2"
    if "py_getitem (replies c (calls w + 3)) node = Inr s2" "\<not> py_truth s2"
    using restart_service_loop_down [where tries = 2 and use_ssh = use_ssh, OF that(1) [folded three] that(2)] by simp
  have a: "restart_service c use_ssh node w =
        Some (Inr (), w\<lparr>calls := calls w + 2, trace := trace w @ ?round\<rparr>)"
    if "py_getitem (replies c (calls w + 1)) node = Inr s1" "py_truth s1"
    using restart_service_loop_up [where tries = 3 and use_ssh = use_ssh, OF that] by (simp add: restart_service_def)
  have b: "restart_service c use_ssh node w =
        Some (Inr (), w\<lparr>calls := calls w + 4,
                trace := trace w @ ?round @ backoff node 2 @ ?round\<rparr>)"
    if "py_getitem (replies c (calls w + 1)) node = Inr s1" "\<not> py_truth s1"
      "py_getitem (replies c (calls w + 3)) node = Inr s2" "py_truth s2"
    using first [OF that(1,2)]
      restart_service_loop_up [where tries = 2 and use_ssh = use_ssh, OF that(3) [folded three] that(4)]
    by simp
  have c: "restart_service c use_ssh node w =
        Some (Inr (), w\<lparr>calls := calls w + 6,
                trace := trace w @ ?round @ backoff node 2 @ ?round @ backoff node 1 @ ?round\<rparr>)"
    if "py_getitem (replies c (calls w + 1)) node = Inr s1" "\<not> py_truth s1"
      "py_getitem (replies c (calls w + 3)) node = Inr s2" "\<not> py_truth s2"
      "py_getitem (replies c (calls w + 5)) node = Inr s3" "py_truth s3"
    using first [OF that(1,2)] second [OF that(3,4)]
      restart_service_loop_up [where tries = 1 and use_ssh = use_ssh, OF that(5) [folded five] that(6)]
    by simp
  have d: "restart_service c use_ssh node w =
        Some (Inl (PyExc ''Exception''), w\<lparr>calls := calls w + 6,
                trace := trace w @ ?round @ backoff node 2 @ ?round @ backoff node 1 @ ?round\<rparr>)"
    if "py_getitem (replies c (calls w + 1)) node = Inr s1" "\<not> py_truth s1"
      "py_getitem (replies c (calls w + 3)) node = Inr s2" "\<not> py_truth s2"
      "py_getitem (replies c (calls w + 5)) node = Inr s3" "\<not> py_truth s3"
    using first [OF that(1,2)] second [OF that(3,4)]
      restart_service_loop_last [where use_ssh = use_ssh, OF that(5) [folded five] that(6)]
    by simp
  from a b c d show ?thesis by blast
qed

theorem restart_service_rounds_witness:
  "restart_service flapping False ''n1'' w0 =
     Some (Inr (),
           w0\<lparr>calls := calls w0 + 6,
              trace := trace w0 @ restart_round False ''n1'' @ backoff ''n1'' 2 @
                       restart_round False ''n1'' @ backoff ''n1'' 1 @
                       restart_round False ''n1''\<rparr>)
   \<and> restart_service service_down False ''n1'' w0 =
     Some (Inl (PyExc ''Exception''),
           w0\<lparr>calls := calls w0 + 6,
              trace := trace w0 @ restart_round False ''n1'' @ backoff ''n1'' 2 @
                       restart_round False ''n1'' @ backoff ''n1'' 1 @
                       restart_round False ''n1''\<rparr>)"
proof
  have f: "py_getitem (replies flapping (calls w0 + 1)) ''n1'' = Inr (PBool False)"
      "py_getitem (replies flapping (calls w0 + 3)) ''n1'' = Inr (PBool False)"
      "py_getitem (replies flapping (calls w0 + 5)) ''n1'' = Inr (PBool True)"
    by (simp_all add: flapping_def script_def w0_def py_getitem_def)
  from restart_service_rounds
    [of flapping w0 "''n1''" "PBool False" False "PBool False" "PBool True"] f
  show "restart_service flapping False ''n1'' w0 =
     Some (Inr (),
           w0\<lparr>calls := calls w0 + 6,
              trace := trace w0 @ restart_round False ''n1'' @ backoff ''n1'' 2 @
                       restart_round False ''n1'' @ backoff ''n1'' 1 @
                       restart_round False ''n1''\<rparr>)"
    by simp
  have d: "py_getitem (replies service_down (calls w0 + 1)) ''n1'' = Inr (PBool False)"
      "py_getitem (replies service_down (calls w0 + 3)) ''n1'' = Inr (PBool False)"
      "py_getitem (replies service_down (calls w0 + 5)) ''n1'' = Inr (PBool False)"
    by (simp_all add: service_down_def py_getitem_def)
  from restart_service_rounds
    [of service_down w0 "''n1''" "PBool False" False "PBool False" "PBool False"] d
  show "restart_service service_down False ''n1'' w0 =
     Some (Inl (PyExc ''Exception''),
           w0\<lparr>calls := calls w0 + 6,
              trace := trace w0 @ restart_round False ''n1'' @ backoff ''n1'' 2 @
                       restart_round False ''n1'' @ backoff ''n1'' 1 @
                       restart_round False ''n1''\<rparr>)"
    by simp
qed

subsection \<open>The connectivity gate\<close>

lemma collect_failed_eq:
  "collect_failed items acc = acc @ map fst (filter (\<lambda>kv. py_eq_num (snd kv) 0) items)"
  by (induction items arbitrary: acc) auto


lemma ping_all_nodes_eq:
  assumes "replies c (calls w) = PDict ret"
  shows "ping_all_nodes c use_ssh nodes w =
     Some (Inr (if list_ex (\<lambda>kv. py_eq_num (snd kv) 0) ret
                then PList (map PStr (map fst (filter (\<lambda>kv. py_eq_num (snd kv) 0) ret)))
                else PBool True),
           w\<lparr>calls := calls w + 1,
             trace := trace w @
               [Cmd use_ssh (PList (map PStr nodes)) ''test.ping'' []
                  [(''tgt_type'', PStr ''list''), (''full_return'', PBool True)]]\<rparr>)"
  using assms
  by (auto simp: ping_all_nodes_def prog_defs py_items_def collect_failed_eq Let_def
      list_ex_iff filter_empty_conv)



subsection \<open>Pieces that always end\<close>

lemma py_getitem_no_exit [simp]: "py_getitem x k \<noteq> Inl (SystemExit n)"
  by (simp add: py_getitem_def split: pyval.splits option.splits)

lemma py_get_no_exit [simp]: "py_get x k \<noteq> Inl (SystemExit n)"
  by (simp add: py_get_def split: pyval.splits option.splits)

lemma py_keys_no_exit [simp]: "py_keys x \<noteq> Inl (SystemExit n)"
  by (simp add: py_keys_def split: pyval.splits)

lemma py_items_no_exit [simp]: "py_items x \<noteq> Inl (SystemExit n)"
  by (simp add: py_items_def split: pyval.splits)

lemma checker_loop_no_exit [simp]: "checker_loop c use_ssh rd ms ok \<noteq> Inl (SystemExit n)"
  by (induction ms arbitrary: ok) (auto split: sum.splits)

lemma no_response_no_exit [simp]: "no_response use_ssh output node \<noteq> Inl (SystemExit n)"
  by (auto simp: no_response_def split: sum.splits)

lemma restarts_simps [simp]:
  "restarts [] = 0"
  "restarts (xs @ ys) = restarts xs + restarts ys"
  "restarts (e # xs) = (if is_restart e then 1 else 0) + restarts xs"
  by (simp_all add: restarts_def)

lemma quietI:
  assumes "\<And>w. \<exists>r n evs. p w = Some (r, w\<lparr>calls := calls w + n, trace := trace w @ evs\<rparr>) \<and>
        (\<forall>k. r \<noteq> Inl (SystemExit k)) \<and> restarts evs = 0"
  shows "quiet p"
  using assms unfolding quiet_def by blast

lemma quiet_unit [simp]: "quiet (unit x)"
proof (rule quietI)
  fix w :: world
  have "unit x w = Some (Inr x, w\<lparr>calls := calls w + 0, trace := trace w @ []\<rparr>)"
    by (simp add: unit_def)
  then show "\<exists>r n evs. unit x w = Some (r, w\<lparr>calls := calls w + n, trace := trace w @ evs\<rparr>) \<and>
        (\<forall>k. r \<noteq> Inl (SystemExit k)) \<and> restarts evs = 0"
    by (metis sum.distinct(1) restarts_simps(1))
qed

lemma quiet_raise [simp]: "quiet (raise (PyExc e))"
proof (rule quietI)
  fix w :: world
  have "raise (PyExc e) w = Some (Inl (PyExc e), w\<lparr>calls := calls w + 0, trace := trace w @ []\<rparr>)"
    by (simp add: raise_def)
  then show "\<exists>r n evs. raise (PyExc e) w =
        Some (r, w\<lparr>calls := calls w + n, trace := trace w @ evs\<rparr>) \<and>
        (\<forall>k. r \<noteq> Inl (SystemExit k)) \<and> restarts evs = 0"
    by (metis sum.inject(1) exn.distinct(1) restarts_simps(1))
qed

lemma quiet_emit: "\<not> is_restart e \<Longrightarrow> quiet (emit e)"
proof (rule quietI)
  fix w :: world
  assume "\<not> is_restart e"
  then have "emit e w = Some (Inr (), w\<lparr>calls := calls w + 0, trace := trace w @ [e]\<rparr>)"
      "restarts [e] = 0"
    by (simp_all add: emit_def)
  then show "\<exists>r n evs. emit e w = Some (r, w\<lparr>calls := calls w + n, trace := trace w @ evs\<rparr>) \<and>
        (\<forall>k. r \<noteq> Inl (SystemExit k)) \<and> restarts evs = 0"
    by (metis sum.distinct(1))
qed

lemma quiet_log [simp]: "quiet (log l m args)"
  by (simp add: log_def quiet_emit)

lemma quiet_sleep [simp]: "quiet (sleep n)"
  by (simp add: sleep_def quiet_emit)

lemma quiet_client_cmd: "f \<noteq> ''service.restart'' \<Longrightarrow> quiet (client_cmd c use_ssh tgt f args kwargs)"
proof (rule quietI)
  fix w :: world
  assume "f \<noteq> ''service.restart''"
  then have "client_cmd c use_ssh tgt f args kwargs w =
      Some (Inr (replies c (calls w)),
            w\<lparr>calls := calls w + 1, trace := trace w @ [Cmd use_ssh tgt f args kwargs]\<rparr>)"
      "restarts [Cmd use_ssh tgt f args kwargs] = 0"
    by (simp_all add: client_cmd_def)
  then show "\<exists>r n evs. client_cmd c use_ssh tgt f args kwargs w =
        Some (r, w\<lparr>calls := calls w + n, trace := trace w @ evs\<rparr>) \<and>
        (\<forall>k. r \<noteq> Inl (SystemExit k)) \<and> restarts evs = 0"
    by (metis sum.distinct(1))
qed

lemma quiet_lift: "(\<And>k. r \<noteq> Inl (SystemExit k)) \<Longrightarrow> quiet (lift r)"
  by (cases r; cases "projl r") (auto simp: lift_def)

lemma quiet_bind:
  assumes "quiet m" and "\<And>x. quiet (k x)"
  shows "quiet (bind m k)"
proof (rule quietI)
  fix w
  from assms(1) obtain r n evs where
    m: "m w = Some (r, w\<lparr>calls := calls w + n, trace := trace w @ evs\<rparr>)"
    and r: "\<And>j. r \<noteq> Inl (SystemExit j)" and e: "restarts evs = 0"
    unfolding quiet_def by blast
  let ?w1 = "w\<lparr>calls := calls w + n, trace := trace w @ evs\<rparr>"
  show "\<exists>r n evs. bind m k w = Some (r, w\<lparr>calls := calls w + n, trace := trace w @ evs\<rparr>) \<and>
        (\<forall>k. r \<noteq> Inl (SystemExit k)) \<and> restarts evs = 0"
  proof (cases r)
    case (Inl x)
    with m have "bind m k w = Some (Inl x, ?w1)" by (simp add: bind_def)
    with r e Inl show ?thesis by blast
  next
    case (Inr x)
    from assms(2) [of x] obtain r2 n2 evs2 where
      k: "k x ?w1 = Some (r2, ?w1\<lparr>calls := calls ?w1 + n2, trace := trace ?w1 @ evs2\<rparr>)"
      and r2: "\<And>j. r2 \<noteq> Inl (SystemExit j)" and e2: "restarts evs2 = 0"
      unfolding quiet_def by blast
    from m Inr k have "bind m k w =
        Some (r2, w\<lparr>calls := calls w + (n + n2), trace := trace w @ (evs @ evs2)\<rparr>)"
      by (simp add: bind_def add.assoc)
    moreover from e e2 have "restarts (evs @ evs2) = 0" by simp
    ultimately show ?thesis using r2 by blast
  qed
qed

lemma quiet_seq: "quiet m \<Longrightarrow> quiet k \<Longrightarrow> quiet (seq m k)"
  by (simp add: seq_def quiet_bind)

lemma quiet_if: "quiet a \<Longrightarrow> quiet b \<Longrightarrow> quiet (if x then a else b)"
  by simp

lemma quiet_scan_states: "quiet (scan_states use_ssh rd minion states)"
proof (induction states)
  case Nil
  show ?case by simp
next
  case (Cons sv states)
  obtain s v where sv: "sv = (s, v)" by (cases sv)
  show ?case
    unfolding sv scan_states.simps
    by (intro quiet_bind quiet_seq quiet_lift quiet_if) (simp_all add: Cons)
qed

lemma quiet_scan_minions: "quiet (scan_minions use_ssh rd minions)"
proof (induction minions)
  case Nil
  show ?case by simp
next
  case (Cons m minions)
  have inner: "quiet (case payload of
          PList errors \<Rightarrow>
            seq (log ERROR SaltRunFailed [])
           (seq (log ERROR Payload [rd])
                (unit (Some False)))
        | _ \<Rightarrow>
            bind (lift (py_items payload)) (\<lambda>states.
            bind (scan_states use_ssh rd m states) (\<lambda>found.
              (case found of
                 Some b \<Rightarrow> unit (Some b)
               | None \<Rightarrow> scan_minions use_ssh rd minions))))" for payload
    by (cases payload)
       (auto intro!: quiet_bind quiet_seq quiet_lift quiet_scan_states Cons
          split: option.splits)
  show ?case
    unfolding scan_minions.simps
    by (intro quiet_bind quiet_lift inner) simp_all
qed

lemma quiet_check_salt_run_status: "quiet (check_salt_run_status c use_ssh rd)"
  unfolding check_salt_run_status_def
  by (auto intro!: quiet_bind quiet_seq quiet_lift quiet_if quiet_scan_minions
      split: option.splits)

lemma quiet_update_configs: "quiet (update_configs c use_ssh node)"
  unfolding update_configs_def
  by (auto intro!: quiet_bind quiet_seq quiet_if quiet_client_cmd quiet_check_salt_run_status)

lemma quiet_update_system: "quiet (update_system c use_ssh node)"
  unfolding update_system_def
  by (auto intro!: quiet_bind quiet_seq quiet_if quiet_client_cmd quiet_check_salt_run_status)

lemma quiet_bounded: "quiet p \<Longrightarrow> bounded k p"
  unfolding quiet_def bounded_def by (metis le0)

lemma bounded_bind:
  assumes "quiet m" and "\<And>x. bounded b (k x)"
  shows "bounded b (bind m k)"
  unfolding bounded_def
proof
  fix w :: world
  from assms(1) obtain r n evs where
    m: "m w = Some (r, w\<lparr>calls := calls w + n, trace := trace w @ evs\<rparr>)"
    and r: "\<And>j. r \<noteq> Inl (SystemExit j)" and e: "restarts evs = 0"
    unfolding quiet_def by blast
  let ?w1 = "w\<lparr>calls := calls w + n, trace := trace w @ evs\<rparr>"
  show "\<exists>r n evs. bind m k w = Some (r, w\<lparr>calls := calls w + n, trace := trace w @ evs\<rparr>) \<and>
        (\<forall>j. r \<noteq> Inl (SystemExit j)) \<and> restarts evs \<le> b"
  proof (cases r)
    case (Inl x)
    with m have "bind m k w = Some (Inl x, ?w1)" by (simp add: bind_def)
    moreover from e have "restarts evs \<le> b" by simp
    ultimately show ?thesis using r Inl by blast
  next
    case (Inr x)
    from assms(2) [of x] obtain r2 n2 evs2 where
      k: "k x ?w1 = Some (r2, ?w1\<lparr>calls := calls ?w1 + n2, trace := trace ?w1 @ evs2\<rparr>)"
      and r2: "\<And>j. r2 \<noteq> Inl (SystemExit j)" and e2: "restarts evs2 \<le> b"
      unfolding bounded_def by blast
    from m Inr k have "bind m k w =
        Some (r2, w\<lparr>calls := calls w + (n + n2), trace := trace w @ (evs @ evs2)\<rparr>)"
      by (simp add: bind_def add.assoc)
    moreover from e e2 have "restarts (evs @ evs2) \<le> b" by simp
    ultimately show ?thesis using r2 by blast
  qed
qed

subsection \<open>\<^verbatim>\<open>restart_service\<close> against any client\<close>

lemma restart_service_body_raises:
  assumes "py_getitem (replies c (calls w + 1)) node = Inl e"
  shows "restart_service_body c use_ssh node tries w =
     Some (Inl e, w\<lparr>calls := calls w + 2, trace := trace w @ restart_round use_ssh node\<rparr>)"
  using assms
  by (simp add: restart_service_body_def prog_defs restart_round_def)

lemma restarts_round [simp]: "restarts (restart_round use_ssh node) = 1"
  by (simp add: restart_round_def)

lemma restarts_backoff [simp]: "restarts (backoff node tries) = 0"
  by (simp add: backoff_def)

lemma bounded_restart_service_loop:
  "1 \<le> k \<Longrightarrow> bounded k (restart_service_loop c use_ssh node (int k) False)"
proof (induction k rule: nat_induct_at_least)
  case base
  show ?case
    unfolding bounded_def
  proof
    fix w :: world
    let ?w' = "w\<lparr>calls := calls w + 2, trace := trace w @ restart_round use_ssh node\<rparr>"
    have "\<exists>r. restart_service_loop c use_ssh node (int 1) False w = Some (r, ?w') \<and>
        (\<forall>j. r \<noteq> Inl (SystemExit j))"
    proof (cases "py_getitem (replies c (calls w + 1)) node")
      case (Inl e)
      then have "restart_service_loop c use_ssh node (int 1) False w = Some (Inl e, ?w')"
        by (subst restart_service_loop.simps) (simp add: restart_service_body_raises)
      moreover from Inl have "e \<noteq> SystemExit j" for j
        using py_getitem_no_exit [of "replies c (calls w + 1)" node j] by auto
      ultimately show ?thesis by auto
    next
      case (Inr status)
      show ?thesis
      proof (cases "py_truth status")
        case True
        from restart_service_loop_up [where tries = 1 and use_ssh = use_ssh, OF Inr True] show ?thesis by simp
      next
        case False
        from restart_service_loop_last [where use_ssh = use_ssh, OF Inr False] show ?thesis by simp
      qed
    qed
    then show "\<exists>r n evs. restart_service_loop c use_ssh node (int 1) False w =
        Some (r, w\<lparr>calls := calls w + n, trace := trace w @ evs\<rparr>) \<and>
        (\<forall>j. r \<noteq> Inl (SystemExit j)) \<and> restarts evs \<le> 1"
      by (metis restarts_round le_refl)
  qed
next
  case (Suc k)
  show ?case
    unfolding bounded_def
  proof
    fix w :: world
    let ?w' = "w\<lparr>calls := calls w + 2, trace := trace w @ restart_round use_ssh node\<rparr>"
    let ?w1 = "w\<lparr>calls := calls w + 2,
        trace := trace w @ restart_round use_ssh node @ backoff node (int (Suc k) - 1)\<rparr>"
    have one: "\<exists>r. restart_service_loop c use_ssh node (int (Suc k)) False w = Some (r, ?w') \<and>
        (\<forall>j. r \<noteq> Inl (SystemExit j)) \<Longrightarrow>
      \<exists>r n evs. restart_service_loop c use_ssh node (int (Suc k)) False w =
        Some (r, w\<lparr>calls := calls w + n, trace := trace w @ evs\<rparr>) \<and>
        (\<forall>j. r \<noteq> Inl (SystemExit j)) \<and> restarts evs \<le> Suc k"
      by (metis restarts_round Suc_le_mono le0 One_nat_def)
    show "\<exists>r n evs. restart_service_loop c use_ssh node (int (Suc k)) False w =
        Some (r, w\<lparr>calls := calls w + n, trace := trace w @ evs\<rparr>) \<and>
        (\<forall>j. r \<noteq> Inl (SystemExit j)) \<and> restarts evs \<le> Suc k"
    proof (cases "py_getitem (replies c (calls w + 1)) node")
      case (Inl e)
      then have "restart_service_loop c use_ssh node (int (Suc k)) False w = Some (Inl e, ?w')"
        by (subst restart_service_loop.simps) (simp add: restart_service_body_raises)
      moreover from Inl have "e \<noteq> SystemExit j" for j
        using py_getitem_no_exit [of "replies c (calls w + 1)" node j] by auto
      ultimately show ?thesis by (intro one) auto
    next
      case (Inr status)
      show ?thesis
      proof (cases "py_truth status")
        case True
        from restart_service_loop_up [where tries = "int (Suc k)" and use_ssh = use_ssh, OF Inr True] show ?thesis
          by (intro one) simp
      next
        case False
        from Suc.hyps have ne: "int (Suc k) \<noteq> 1" by simp
        have step: "restart_service_loop c use_ssh node (int (Suc k)) False w =
            restart_service_loop c use_ssh node (int k) False ?w1"
          using restart_service_loop_down [where use_ssh = use_ssh, OF Inr False ne] by simp
        from Suc.IH obtain r n evs where
          l: "restart_service_loop c use_ssh node (int k) False ?w1 =
                Some (r, ?w1\<lparr>calls := calls ?w1 + n, trace := trace ?w1 @ evs\<rparr>)"
          and r: "\<And>j. r \<noteq> Inl (SystemExit j)" and e: "restarts evs \<le> k"
          unfolding bounded_def by blast
        have "restart_service_loop c use_ssh node (int (Suc k)) False w =
            Some (r, w\<lparr>calls := calls w + (2 + n),
                       trace := trace w @ (restart_round use_ssh node @
                         backoff node (int (Suc k) - 1) @ evs)\<rparr>)"
          unfolding step l by (simp add: add.assoc)
        moreover from e have "restarts (restart_round use_ssh node @
            backoff node (int (Suc k) - 1) @ evs) \<le> Suc k"
          by simp
        ultimately show ?thesis using r by blast
      qed
    qed
  qed
qed

lemma bounded_restart_service: "bounded 3 (restart_service c use_ssh node)"
  using bounded_restart_service_loop [of 3 c use_ssh node] by (simp add: restart_service_def)

lemma attempt_update_configs:
  assumes "opt_action opts = ''update_configs''"
  shows "\<exists>r n evs. attempt c opts minion w =
       Some (r, w\<lparr>calls := calls w + n, trace := trace w @ evs\<rparr>) \<and>
       (r = Inr () \<or> r = Inl (SystemExit 1)) \<and> restarts evs \<le> 3"
proof -
  let ?body = "seq (update_configs c (opt_use_ssh opts) minion)
                   (restart_service c (opt_use_ssh opts) minion)"
  have "bounded 3 ?body"
    unfolding seq_def by (intro bounded_bind quiet_update_configs bounded_restart_service)
  then obtain r n evs where
    b: "?body w = Some (r, w\<lparr>calls := calls w + n, trace := trace w @ evs\<rparr>)"
    and r: "\<And>j. r \<noteq> Inl (SystemExit j)" and e: "restarts evs \<le> 3"
    unfolding bounded_def by blast
  show ?thesis
  proof (cases r)
    case (Inr u)
    with assms b have "attempt c opts minion w =
        Some (Inr (), w\<lparr>calls := calls w + n, trace := trace w @ evs\<rparr>)"
      by (simp add: attempt_def try_except_def)
    with e show ?thesis by blast
  next
    case (Inl x)
    with r obtain name where x: "x = PyExc name" by (cases x) auto
    from assms b Inl x have "attempt c opts minion w =
        Some (Inl (SystemExit 1),
              w\<lparr>calls := calls w + n,
                trace := trace w @ (evs @ [Log ERROR UpdateRestartFailed [PStr minion]])\<rparr>)"
      by (simp add: attempt_def try_except_def prog_defs)
    moreover from e have "restarts (evs @ [Log ERROR UpdateRestartFailed [PStr minion]]) \<le> 3"
      by simp
    ultimately show ?thesis by blast
  qed
qed

subsection \<open>The retry loop\<close>

lemma retry_loop_done:
  "retry_loop c use_ssh handler minion tries True w = Some (Inr (), w)"
  by (simp add: retry_loop.simps)

lemma retry_loop_success:
  "handler w = Some (Inr (), w') \<Longrightarrow>
     retry_loop c use_ssh handler minion tries False w = Some (Inr (), w')"
  by (subst retry_loop.simps) (simp add: retry_loop_done)

lemma retry_loop_exit:
  "handler w = Some (Inl (SystemExit n), w') \<Longrightarrow>
     retry_loop c use_ssh handler minion tries False w = Some (Inl (SystemExit n), w')"
  by (subst retry_loop.simps) simp

lemma retry_loop_diverges:
  "handler w = None \<Longrightarrow> retry_loop c use_ssh handler minion tries False w = None"
  by (subst retry_loop.simps) simp

lemma on_failure_eq:
  "on_failure c use_ssh minion tries e w =
     Some (if tries - 1 = 0 then Inl (SystemExit 1) else Inr (tries - 1),
           after_failure use_ssh minion (tries - 1) e w)"
  by (simp add: on_failure_def after_failure_def prog_defs Let_def)

lemma retry_loop_failure:
  assumes "handler w = Some (Inl (PyExc e), w1)"
  shows "retry_loop c use_ssh handler minion tries False w =
     (if tries - 1 = 0 then Some (Inl (SystemExit 1), after_failure use_ssh minion 0 e w1)
      else retry_loop c use_ssh handler minion (tries - 1) False
             (after_failure use_ssh minion (tries - 1) e w1))"
  using assms
  by (subst retry_loop.simps) (simp add: on_failure_eq)

lemma retry_loop_exhausts:
  assumes h: "raises handler"
    and l: "retry_loop c use_ssh handler minion 3 False w = Some (r, w')"
  shows "r = Inl (SystemExit 1) \<and>
     (\<exists>e1 w1 e2 w2 e3 w3.
        handler w = Some (Inl (PyExc e1), w1) \<and>
        handler (after_failure use_ssh minion 2 e1 w1) = Some (Inl (PyExc e2), w2) \<and>
        handler (after_failure use_ssh minion 1 e2 w2) = Some (Inl (PyExc e3), w3) \<and>
        w' = after_failure use_ssh minion 0 e3 w3)"
proof -
  have step: "\<exists>e w1. handler v = Some (Inl (PyExc e), w1)"
    if "retry_loop c use_ssh handler minion t False v = Some y" for t v y
  proof (cases "handler v")
    case None
    from retry_loop_diverges [where handler = handler and w = v, OF this] that show ?thesis by simp
  next
    case (Some rw)
    with h show ?thesis unfolding raises_def by (cases rw) blast
  qed
  from step [OF l] obtain e1 w1 where 1: "handler w = Some (Inl (PyExc e1), w1)" by blast
  from l have l2: "retry_loop c use_ssh handler minion 2 False
      (after_failure use_ssh minion 2 e1 w1) = Some (r, w')"
    by (simp add: retry_loop_failure [where handler = handler, OF 1])
  from step [OF l2] obtain e2 w2 where
    2: "handler (after_failure use_ssh minion 2 e1 w1) = Some (Inl (PyExc e2), w2)" by blast
  from l2 have l3: "retry_loop c use_ssh handler minion 1 False
      (after_failure use_ssh minion 1 e2 w2) = Some (r, w')"
    by (simp add: retry_loop_failure [where handler = handler, OF 2])
  from step [OF l3] obtain e3 w3 where
    3: "handler (after_failure use_ssh minion 1 e2 w2) = Some (Inl (PyExc e3), w3)" by blast
  from l3 have "r = Inl (SystemExit 1)" "w' = after_failure use_ssh minion 0 e3 w3"
    by (simp_all add: retry_loop_failure [where handler = handler, OF 3])
  with 1 2 3 show ?thesis by blast
qed

lemma for_minions_Cons:
  "for_minions c use_ssh handler (minion # rest) w =
     (case retry_loop c use_ssh (handler minion) minion 3 False
             (w\<lparr>trace := trace w @ [Log INFO BeginningWork [PStr minion]]\<rparr>) of
        None \<Rightarrow> None
      | Some (Inl e, w') \<Rightarrow> Some (Inl e, w')
      | Some (Inr u, w') \<Rightarrow> for_minions c use_ssh handler rest w')"
  by (simp add: prog_defs split: option.splits sum.splits)

lemma split_comma_not_Nil [simp]: "split_comma s \<noteq> []"
  by (induction s) (auto split: list.splits)

lemma main_all_up:
  assumes "replies c (calls w) = PDict ret"
    and "opt_minions opts = Some s"
    and "\<not> opt_test opts"
    and "\<not> list_ex (\<lambda>kv. py_eq_num (snd kv) 0) ret"
  shows "main c opts 0 w =
        seq (for_minions c (opt_use_ssh opts) (attempt c opts) (split_comma s))
            (log INFO Finished [])
          (w\<lparr>calls := calls w + 1,
             trace := trace w @
               [Log INFO PingingAll [],
                Cmd (opt_use_ssh opts) (PList (map PStr (split_comma s))) ''test.ping'' []
                  [(''tgt_type'', PStr ''list''), (''full_return'', PBool True)],
                Log INFO AllResponded []]\<rparr>)"
proof -
  have p: "replies c (calls (w\<lparr>trace := trace w @ [Log INFO PingingAll []]\<rparr>)) = PDict ret"
    using assms(1) by simp
  show ?thesis
    using assms(2-4)
    by (simp add: main_def ping_all_nodes_eq [OF p] bind_def seq_def log_def emit_def unit_def)
qed

subsection \<open>Handlers that end with the undefined name\<close>

lemma quiet_no_exit: "quiet p \<Longrightarrow> no_exit p"
  unfolding quiet_def no_exit_def by (metis option.inject prod.inject)

lemma no_exit_bind:
  assumes "no_exit m" and "\<And>x. no_exit (k x)"
  shows "no_exit (bind m k)"
  using assms unfolding no_exit_def bind_def
  by (auto split: option.splits sum.splits)

lemma raises_seq:
  assumes "no_exit m" and "raises k"
  shows "raises (seq m k)"
  unfolding raises_def
proof (intro allI impI)
  fix w r w'
  assume s: "seq m k w = Some (r, w')"
  then obtain r1 w1 where m: "m w = Some (r1, w1)"
    by (auto simp: seq_def bind_def split: option.splits)
  show "\<exists>e. r = Inl (PyExc e)"
  proof (cases r1)
    case (Inl x)
    with s m have "r = Inl x" by (simp add: seq_def bind_def)
    moreover from assms(1) m Inl have "x \<noteq> SystemExit j" for j
      unfolding no_exit_def by blast
    ultimately show ?thesis by (cases x) auto
  next
    case (Inr u)
    with s m have "k w1 = Some (r, w')" by (simp add: seq_def bind_def)
    with assms(2) show ?thesis unfolding raises_def by blast
  qed
qed

lemma raises_wait_for_es_service: "raises (wait_for_es_service minion)"
  by (simp add: raises_def wait_for_es_service_def raise_def)

lemma quiet_restart_host_body: "quiet (restart_host_body c use_ssh node b t)"
  unfolding restart_host_body_def
  by (auto intro!: quiet_bind quiet_seq quiet_if quiet_lift quiet_client_cmd)

lemma no_exit_restart_host_loop:
  "no_exit (restart_host_loop c use_ssh node b t)"
  unfolding no_exit_def
proof (intro allI impI)
  fix w r w' k
  assume l: "restart_host_loop c use_ssh node b t w = Some (r, w')"
  have "\<forall>k v. (r, w') \<noteq> (Inl (SystemExit k), v)"
  proof (rule restart_host_loop.raw_induct
      [where P = "\<lambda>c use_ssh node b t w y. \<forall>k v. y \<noteq> (Inl (SystemExit k), v)", OF _ l])
    fix loop c use_ssh node b t w y
    assume IH: "\<And>c use_ssh node b t w y. loop c use_ssh node b t w = Some y \<Longrightarrow>
        \<forall>k v. y \<noteq> (Inl (SystemExit k), v)"
      and step: "(if 0 < t
        then case restart_host_body c use_ssh node b t w of
             None \<Rightarrow> None | Some (Inl e, w') \<Rightarrow> Some (Inl e, w')
             | Some (Inr (Next timeout'), w') \<Rightarrow> loop c use_ssh node b timeout' w'
             | Some (Inr Return, w') \<Rightarrow> Some (Inr (), w')
        else seq (log ERROR RebootTimedOut [PStr node]) (raise (PyExc ''Exception'')) w) = Some y"
    show "\<forall>k v. y \<noteq> (Inl (SystemExit k), v)"
    proof (cases "0 < t")
      case False
      with step show ?thesis by (auto simp: prog_defs)
    next
      case True
      from quiet_no_exit [OF quiet_restart_host_body, of c use_ssh node b t]
      have ne: "restart_host_body c use_ssh node b t w = Some (Inl (SystemExit k), v) \<Longrightarrow> False"
        for k v
        unfolding no_exit_def by blast
      show ?thesis
      proof (cases "restart_host_body c use_ssh node b t w")
        case None
        with step True show ?thesis by simp
      next
        case (Some rw)
        obtain r1 w1 where rw: "rw = (r1, w1)" by (cases rw)
        show ?thesis
        proof (cases r1)
          case (Inl e)
          with step True Some rw have "y = (Inl e, w1)" by simp
          with ne Some rw Inl show ?thesis by auto
        next
          case (Inr f)
          show ?thesis
          proof (cases f)
            case (Next t')
            with step True Some rw Inr have "loop c use_ssh node b t' w1 = Some y" by simp
            from IH [OF this] show ?thesis .
          next
            case Return
            with step True Some rw Inr show ?thesis by auto
          qed
        qed
      qed
    qed
  qed
  then show "r \<noteq> Inl (SystemExit k)" by simp
qed

lemma quiet_do_salt_call:
  "f \<noteq> ''service.restart'' \<Longrightarrow> quiet (do_salt_call c use_ssh node f [])"
  unfolding do_salt_call_def
  by (auto intro!: quiet_bind quiet_seq quiet_if quiet_lift quiet_client_cmd)

lemma no_exit_restart_host: "no_exit (restart_host c use_ssh node)"
  unfolding restart_host_def seq_def
  by (intro no_exit_bind no_exit_restart_host_loop quiet_no_exit quiet_do_salt_call
      quiet_lift quiet_client_cmd quiet_log) simp_all

lemma raises_attempt:
  assumes "opt_action opts = ''reboot_host'' \<or> opt_action opts = ''update_system''"
  shows "raises (attempt c opts minion)"
proof -
  have a: "raises (seq (restart_host c (opt_use_ssh opts) minion) (wait_for_es_service minion))"
    by (intro raises_seq no_exit_restart_host raises_wait_for_es_service)
  have n: "no_exit (if opt_reboot opts then restart_host c (opt_use_ssh opts) minion else unit ())"
    by (cases "opt_reboot opts") (simp_all add: no_exit_restart_host quiet_no_exit [OF quiet_unit])
  have b: "raises (seq (update_system c (opt_use_ssh opts) minion)
       (seq (if opt_reboot opts then restart_host c (opt_use_ssh opts) minion else unit ())
            (wait_for_es_service minion)))"
    by (rule raises_seq [OF quiet_no_exit [OF quiet_update_system]
          raises_seq [OF n raises_wait_for_es_service]])
  from assms a b show ?thesis by (auto simp: attempt_def)
qed

text \<open>
  C6 (as amended). A handler whose failure reaches the retry loop as an exception, on
  every attempt, is run exactly three times on the first node: the run begins the
  node, runs the handler, notes the failure with 2 tries left, runs it again, notes 1,
  runs it a third time, notes 0 and exits with status 1. The nodes after it play no
  part. A handler that exits the process itself (as the one of \<^verbatim>\<open>update_configs\<close> does
  when it fails) is run once, and the run ends with its exit status.
  \<open>err w\<close> and \<open>run w\<close> are the exception and the world of the handler started in \<open>w\<close>.
\<close>

theorem retry_budget_exhausted:
  assumes "\<forall>v. handler minion v = Some (Inl (PyExc (err v)), run v)"
  shows "for_minions c use_ssh handler (minion # rest) w =
     (let w1 = w\<lparr>trace := trace w @ [Log INFO BeginningWork [PStr minion]]\<rparr>;
          w2 = after_failure use_ssh minion 2 (err w1) (run w1);
          w3 = after_failure use_ssh minion 1 (err w2) (run w2);
          w4 = after_failure use_ssh minion 0 (err w3) (run w3)
      in Some (Inl (SystemExit 1), w4))
   \<and> (other minion (w\<lparr>trace := trace w @ [Log INFO BeginningWork [PStr minion]]\<rparr>) =
        Some (Inl (SystemExit n), w') \<longrightarrow>
      for_minions c use_ssh other (minion # rest) w = Some (Inl (SystemExit n), w'))"
proof
  let ?w1 = "w\<lparr>trace := trace w @ [Log INFO BeginningWork [PStr minion]]\<rparr>"
  let ?w2 = "after_failure use_ssh minion 2 (err ?w1) (run ?w1)"
  let ?w3 = "after_failure use_ssh minion 1 (err ?w2) (run ?w2)"
  let ?w4 = "after_failure use_ssh minion 0 (err ?w3) (run ?w3)"
  from assms have h: "handler minion v = Some (Inl (PyExc (err v)), run v)" for v
    by blast
  have "retry_loop c use_ssh (handler minion) minion 3 False ?w1 =
        retry_loop c use_ssh (handler minion) minion 2 False ?w2"
    using retry_loop_failure [where handler = "handler minion" and tries = 3, OF h] by simp
  also have "\<dots> = retry_loop c use_ssh (handler minion) minion 1 False ?w3"
    using retry_loop_failure [where handler = "handler minion" and tries = 2, OF h] by simp
  also have "\<dots> = Some (Inl (SystemExit 1), ?w4)"
    using retry_loop_failure [where handler = "handler minion" and tries = 1, OF h] by simp
  finally have r: "retry_loop c use_ssh (handler minion) minion 3 False ?w1 =
      Some (Inl (SystemExit 1), ?w4)" .
  show "for_minions c use_ssh handler (minion # rest) w =
     (let w1 = w\<lparr>trace := trace w @ [Log INFO BeginningWork [PStr minion]]\<rparr>;
          w2 = after_failure use_ssh minion 2 (err w1) (run w1);
          w3 = after_failure use_ssh minion 1 (err w2) (run w2);
          w4 = after_failure use_ssh minion 0 (err w3) (run w3)
      in Some (Inl (SystemExit 1), w4))"
    unfolding for_minions_Cons Let_def r by simp
  show "other minion ?w1 = Some (Inl (SystemExit n), w') \<longrightarrow>
      for_minions c use_ssh other (minion # rest) w = Some (Inl (SystemExit n), w')"
  proof
    assume "other minion ?w1 = Some (Inl (SystemExit n), w')"
    from retry_loop_exit [where handler = "other minion", OF this]
    have x: "retry_loop c use_ssh (other minion) minion 3 False ?w1 =
        Some (Inl (SystemExit n), w')" .
    show "for_minions c use_ssh other (minion # rest) w = Some (Inl (SystemExit n), w')"
      unfolding for_minions_Cons x by simp
  qed
qed

lemma attempt_broken:
  "attempt broken (run_options ''minion-01,minion-02'' ''update_system'') ''minion-01'' v =
     Some (Inl (PyExc ''Exception''), broken_upgrade v)"
  by (simp add: attempt_def run_options_def update_system_def check_salt_run_status_def
      prog_defs broken_def broken_upgrade_def compile_error_def py_keys_def py_getitem_def
      SALT_RETURN_KEY_def salt_like_checker_def)

theorem retry_budget_exhausted_witness:
  "for_minions broken False (attempt broken (run_options ''minion-01,minion-02'' ''update_system''))
     [''minion-01'', ''minion-02''] w0 =
   Some (Inl (SystemExit 1),
     \<lparr>calls = 3,
      trace = [Log INFO BeginningWork [PStr ''minion-01'']] @
        trace (broken_upgrade w0) @
        [Log WARNING WorkFailed [PStr ''minion-01'', PInt 2, PStr ''Exception'']] @
        trace (broken_upgrade w0) @
        [Log WARNING WorkFailed [PStr ''minion-01'', PInt 1, PStr ''Exception'']] @
        trace (broken_upgrade w0) @
        [Log WARNING WorkFailed [PStr ''minion-01'', PInt 0, PStr ''Exception''],
         Log ERROR FailedOnMinion [PStr ''minion-01'']]\<rparr>)"
proof -
  have h: "\<forall>v. attempt broken (run_options ''minion-01,minion-02'' ''update_system'')
      ''minion-01'' v = Some (Inl (PyExc ((\<lambda>v. ''Exception'') v)), broken_upgrade v)"
    by (simp add: attempt_broken)
  from retry_budget_exhausted [where handler = "attempt broken
        (run_options ''minion-01,minion-02'' ''update_system'')" and err = "\<lambda>v. ''Exception''"
      and run = broken_upgrade and minion = "''minion-01''", OF h, THEN conjunct1,
      of broken False "[''minion-02'']" w0]
  show ?thesis
    by (simp add: Let_def after_failure_def broken_upgrade_def w0_def)
qed

text \<open>
  The claim as stated fails for \<^verbatim>\<open>update_configs\<close>: a state run that fails to compile
  makes the handler fail, and would on every attempt; the run exits with status 1 after
  one run of the handler (one \<^verbatim>\<open>state.sls\<close>), with no retry noted.
\<close>

theorem failing_update_configs_runs_once:
  "main bad_sls (run_options ''minion-01,minion-02'' ''update_configs'') 0 w0 =
   Some (Inl (SystemExit 1),
     \<lparr>calls = 2,
      trace =
        [Log INFO PingingAll [],
         Cmd False (PList [PStr ''minion-01'', PStr ''minion-02'']) ''test.ping'' []
           [(''tgt_type'', PStr ''list''), (''full_return'', PBool True)],
         Log INFO AllResponded [],
         Log INFO BeginningWork [PStr ''minion-01''],
         Log INFO UpdatingConfigs [PStr ''minion-01''],
         Cmd False (PStr ''minion-01'') ''state.sls'' [PStr ''haproxy.update_configs'']
           [(''kwarg'', PDict [(''pillar'', PDict [(''foo'', PStr ''bar'')])]),
            (''full_return'', PBool True)],
         Log DEBUG CheckingReturnData [compile_error],
         Log ERROR SaltRunFailed [],
         Log ERROR Payload [compile_error],
         Log ERROR UpdateRestartFailed [PStr ''minion-01'']]\<rparr>)"
  by (simp add: main_def run_options_def ping_all_nodes_def attempt_def try_except_def
      update_configs_def check_salt_run_status_def retry_loop.simps
      prog_defs bad_sls_def bad_sls_replies_def ping_two_def compile_error_def py_keys_def
      py_items_def py_getitem_def SALT_RETURN_KEY_def salt_like_checker_def w0_def Let_def)

subsection \<open>A failed \<^verbatim>\<open>update_configs\<close>\<close>

lemma attempt_never_up:
  "attempt never_up (run_options ''minion-01'' ''update_configs'') ''minion-01''
     \<lparr>calls = 1, trace = []\<rparr> =
   Some (Inl (SystemExit 1),
     \<lparr>calls = 8,
      trace =
        [Log INFO UpdatingConfigs [PStr ''minion-01''],
         Cmd False (PStr ''minion-01'') ''state.sls'' [PStr ''haproxy.update_configs'']
           [(''kwarg'', PDict [(''pillar'', PDict [(''foo'', PStr ''bar'')])]),
            (''full_return'', PBool True)],
         Log DEBUG CheckingReturnData [good_state]] @
        restart_round False ''minion-01'' @ backoff ''minion-01'' 2 @
        restart_round False ''minion-01'' @ backoff ''minion-01'' 1 @
        restart_round False ''minion-01'' @
        [Log ERROR UpdateRestartFailed [PStr ''minion-01'']]\<rparr>)"
  by (simp add: attempt_def try_except_def run_options_def update_configs_def
      check_salt_run_status_def restart_service_def restart_service_loop.simps
      restart_service_body_def restart_round_def backoff_def
      prog_defs never_up_def never_up_replies_def good_state_def py_keys_def
      py_get_def py_getitem_def SALT_RETURN_KEY_def salt_like_checker_def Let_def)

text \<open>
  C3 (as amended). Under \<^verbatim>\<open>update_configs\<close> the retry loop is one run of the handler,
  whatever the budget: the attempt always ends, either well or with \<^verbatim>\<open>exit(1)\<close>, and
  never with an exception the loop could catch. In that one run the service is
  restarted at most 3 times (the local counter of \<^verbatim>\<open>restart_service\<close>).
\<close>

theorem update_configs_failure_is_final:
  assumes "opt_action opts = ''update_configs''"
  shows "retry_loop c use_ssh (attempt c opts minion) minion tries False w =
           attempt c opts minion w
   \<and> (\<exists>r n evs. attempt c opts minion w =
          Some (r, w\<lparr>calls := calls w + n, trace := trace w @ evs\<rparr>) \<and>
        (r = Inr () \<or> r = Inl (SystemExit 1)) \<and> restarts evs \<le> 3)"
proof -
  from attempt_update_configs [OF assms, of c minion w] obtain r n evs where
    a: "attempt c opts minion w =
          Some (r, w\<lparr>calls := calls w + n, trace := trace w @ evs\<rparr>)"
    and r: "r = Inr () \<or> r = Inl (SystemExit 1)" and e: "restarts evs \<le> 3"
    by blast
  from r have "retry_loop c use_ssh (attempt c opts minion) minion tries False w =
      Some (r, w\<lparr>calls := calls w + n, trace := trace w @ evs\<rparr>)"
  proof
    assume "r = Inr ()"
    with a retry_loop_success [where handler = "attempt c opts minion" and w = w]
    show ?thesis by simp
  next
    assume "r = Inl (SystemExit 1)"
    with a retry_loop_exit [where handler = "attempt c opts minion" and w = w]
    show ?thesis by simp
  qed
  with a r e show ?thesis by auto
qed

theorem update_configs_failure_is_final_witness:
  "retry_loop never_up False
     (attempt never_up (run_options ''minion-01'' ''update_configs'') ''minion-01'')
     ''minion-01'' 3 False \<lparr>calls = 1, trace = []\<rparr> =
   Some (Inl (SystemExit 1),
     \<lparr>calls = 8,
      trace =
        [Log INFO UpdatingConfigs [PStr ''minion-01''],
         Cmd False (PStr ''minion-01'') ''state.sls'' [PStr ''haproxy.update_configs'']
           [(''kwarg'', PDict [(''pillar'', PDict [(''foo'', PStr ''bar'')])]),
            (''full_return'', PBool True)],
         Log DEBUG CheckingReturnData [good_state]] @
        restart_round False ''minion-01'' @ backoff ''minion-01'' 2 @
        restart_round False ''minion-01'' @ backoff ''minion-01'' 1 @
        restart_round False ''minion-01'' @
        [Log ERROR UpdateRestartFailed [PStr ''minion-01'']]\<rparr>)"
proof -
  have o: "opt_action (run_options ''minion-01'' ''update_configs'') = ''update_configs''"
    by (simp add: run_options_def)
  from update_configs_failure_is_final [OF o, THEN conjunct1,
      of never_up False "''minion-01''" 3 "\<lparr>calls = 1, trace = []\<rparr>"]
  show ?thesis
    by (simp only: attempt_never_up)
qed

text \<open>
  The claim as stated fails: with a service that is down at every status check, the
  run is over after the 3 restarts of the one attempt, with exit status 1 and no retry
  noted; there is no second attempt, and so no 9 restarts.
\<close>

theorem failed_restart_is_not_retried:
  "main never_up (run_options ''minion-01'' ''update_configs'') 0 w0 =
   Some (Inl (SystemExit 1),
     \<lparr>calls = 8,
      trace =
        [Log INFO PingingAll [],
         Cmd False (PList [PStr ''minion-01'']) ''test.ping'' []
           [(''tgt_type'', PStr ''list''), (''full_return'', PBool True)],
         Log INFO AllResponded [],
         Log INFO BeginningWork [PStr ''minion-01''],
         Log INFO UpdatingConfigs [PStr ''minion-01''],
         Cmd False (PStr ''minion-01'') ''state.sls'' [PStr ''haproxy.update_configs'']
           [(''kwarg'', PDict [(''pillar'', PDict [(''foo'', PStr ''bar'')])]),
            (''full_return'', PBool True)],
         Log DEBUG CheckingReturnData [good_state]] @
        restart_round False ''minion-01'' @ backoff ''minion-01'' 2 @
        restart_round False ''minion-01'' @ backoff ''minion-01'' 1 @
        restart_round False ''minion-01'' @
        [Log ERROR UpdateRestartFailed [PStr ''minion-01'']]\<rparr>)
   \<and> restarts
        (restart_round False ''minion-01'' @ backoff ''minion-01'' 2 @
         restart_round False ''minion-01'' @ backoff ''minion-01'' 1 @
         restart_round False ''minion-01'') = 3"
  by (simp add: main_def ping_all_nodes_def retry_loop.simps
      attempt_def try_except_def run_options_def update_configs_def
      check_salt_run_status_def restart_service_def restart_service_loop.simps
      restart_service_body_def restart_round_def backoff_def ping_one_def
      prog_defs never_up_def never_up_replies_def good_state_def py_keys_def py_items_def
      py_get_def py_getitem_def SALT_RETURN_KEY_def salt_like_checker_def Let_def w0_def)

subsection \<open>Runs of \<^verbatim>\<open>reboot_host\<close> and \<^verbatim>\<open>update_system\<close>\<close>

lemma retry_loop_exhausts_total:
  assumes q: "quiet handler" and h: "raises handler"
  shows "\<exists>e v. retry_loop c use_ssh handler minion 3 False w =
           Some (Inl (SystemExit 1), after_failure use_ssh minion 0 e v)"
proof -
  have step: "\<exists>e v'. handler v = Some (Inl (PyExc e), v')" for v
  proof -
    from q obtain r v' where "handler v = Some (r, v')"
      unfolding quiet_def by blast
    with h show ?thesis unfolding raises_def by blast
  qed
  from step obtain e1 w1 where 1: "handler w = Some (Inl (PyExc e1), w1)" by blast
  from step obtain e2 w2 where
    2: "handler (after_failure use_ssh minion 2 e1 w1) = Some (Inl (PyExc e2), w2)" by blast
  from step obtain e3 w3 where
    3: "handler (after_failure use_ssh minion 1 e2 w2) = Some (Inl (PyExc e3), w3)" by blast
  have "retry_loop c use_ssh handler minion 3 False w =
        retry_loop c use_ssh handler minion 2 False (after_failure use_ssh minion 2 e1 w1)"
    using retry_loop_failure [where handler = handler and tries = 3, OF 1] by simp
  also have "\<dots> =
        retry_loop c use_ssh handler minion 1 False (after_failure use_ssh minion 1 e2 w2)"
    using retry_loop_failure [where handler = handler and tries = 2, OF 2] by simp
  also have "\<dots> = Some (Inl (SystemExit 1), after_failure use_ssh minion 0 e3 w3)"
    using retry_loop_failure [where handler = handler and tries = 1, OF 3] by simp
  finally show ?thesis by blast
qed

lemma restart_host_hangs:
  assumes "uptime_of use_ssh node (replies c (calls w)) = Inr b"
    and "waits_forever c use_ssh node b (calls w + 2)"
  shows "restart_host c use_ssh node w = None"
proof -
  from assms(1) obtain entry kvs where
    e: "py_getitem (replies c (calls w)) node = Inr entry"
      "py_getitem entry (SALT_RETURN_KEY use_ssh) = Inr (PDict kvs)"
      "py_getitem (PDict kvs) ''seconds'' = Inr b"
    by (auto simp: uptime_of_def py_getitem_def split: sum.splits pyval.splits option.splits)
  from e(3) have t: "py_truth (PDict kvs)"
    by (cases kvs) (auto simp: py_getitem_def)
  let ?w2 = "w\<lparr>calls := calls w + 1 + 1,
      trace := trace w @
        [Log INFO RestartingHost [PStr node],
         Cmd use_ssh (PStr node) ''status.uptime'' [] [(''full_return'', PBool True)],
         Cmd use_ssh (PStr node) ''system.reboot'' [] [(''full_return'', PBool True)]]\<rparr>"
  from e t have "restart_host c use_ssh node w = restart_host_loop c use_ssh node b 300 ?w2"
    by (simp add: restart_host_def do_salt_call_def prog_defs del: One_nat_def)
  also have "\<dots> = None"
    using assms(2) by (intro restart_host_loop_never_returns) simp_all
  finally show ?thesis .
qed

lemma waits_forever_hanging: "waits_forever hanging False ''minion-01'' (PInt 1200) 3"
  by (simp add: waits_forever_def hanging_def hanging_replies_def uptime_reply_def
      no_response_def uptime_of_def py_getitem_def SALT_RETURN_KEY_def)

lemma main_upgraded:
  "main upgraded (run_options ''minion-01'' ''update_system'') 0 w0 =
   Some (Inl (SystemExit 1),
     \<lparr>calls = 4,
      trace =
        [Log INFO PingingAll [],
         Cmd False (PList [PStr ''minion-01'']) ''test.ping'' []
           [(''tgt_type'', PStr ''list''), (''full_return'', PBool True)],
         Log INFO AllResponded [],
         Log INFO BeginningWork [PStr ''minion-01''],
         Log INFO UpdatingPackages [PStr ''minion-01''],
         Cmd False (PStr ''minion-01'') ''pkg.upgrade'' [PStr (''refresh='' @ [CHR 0x22] @ ''true'' @ [CHR 0x22])]
           [(''full_return'', PBool True)],
         Log DEBUG CheckingReturnData [good_state],
         Log WARNING WorkFailed [PStr ''minion-01'', PInt 2, PStr ''NameError''],
         Log INFO UpdatingPackages [PStr ''minion-01''],
         Cmd False (PStr ''minion-01'') ''pkg.upgrade'' [PStr (''refresh='' @ [CHR 0x22] @ ''true'' @ [CHR 0x22])]
           [(''full_return'', PBool True)],
         Log DEBUG CheckingReturnData [good_state],
         Log WARNING WorkFailed [PStr ''minion-01'', PInt 1, PStr ''NameError''],
         Log INFO UpdatingPackages [PStr ''minion-01''],
         Cmd False (PStr ''minion-01'') ''pkg.upgrade'' [PStr (''refresh='' @ [CHR 0x22] @ ''true'' @ [CHR 0x22])]
           [(''full_return'', PBool True)],
         Log DEBUG CheckingReturnData [good_state],
         Log WARNING WorkFailed [PStr ''minion-01'', PInt 0, PStr ''NameError''],
         Log ERROR FailedOnMinion [PStr ''minion-01'']]\<rparr>)"
  by (simp add: main_def ping_all_nodes_def retry_loop.simps on_failure_def
      attempt_def wait_for_es_service_def run_options_def update_system_def
      check_salt_run_status_def ping_one_def
      prog_defs upgraded_def upgraded_replies_def good_state_def py_keys_def py_items_def
      py_get_def py_getitem_def SALT_RETURN_KEY_def salt_like_checker_def Let_def w0_def)

text \<open>
  C2 (as amended). Under \<^verbatim>\<open>reboot_host\<close> and \<^verbatim>\<open>update_system\<close> no attempt succeeds: an
  attempt that ends has raised an exception that the retry loop catches (from the
  handler, or from the undefined name \<^verbatim>\<open>wait_for_es_service\<close> once the handler has
  returned). So a retry loop that ends has exited with status 1 at the third failure,
  and so has a run that got past the privilege check, the dry run and the ping; it is
  the first node that it has given up on. A run of \<^verbatim>\<open>update_system\<close> without the reboot
  flag always ends that way.
\<close>

theorem undefined_name_fails_every_attempt:
  assumes "opt_action opts = ''reboot_host'' \<or> opt_action opts = ''update_system''"
  shows "(\<forall>r w'. attempt c opts minion w = Some (r, w') \<longrightarrow> (\<exists>e. r = Inl (PyExc e)))
   \<and> (\<forall>r w'. retry_loop c (opt_use_ssh opts) (attempt c opts minion) minion 3 False w =
          Some (r, w') \<longrightarrow>
        r = Inl (SystemExit 1) \<and>
        (\<exists>e v. w' = after_failure (opt_use_ssh opts) minion 0 e v))
   \<and> (replies c (calls w) = PDict ret \<and> opt_minions opts = Some s \<and> \<not> opt_test opts \<and>
      \<not> list_ex (\<lambda>kv. py_eq_num (snd kv) 0) ret \<longrightarrow>
        (\<forall>r w'. main c opts 0 w = Some (r, w') \<longrightarrow>
           r = Inl (SystemExit 1) \<and>
           (\<exists>e v. w' = after_failure (opt_use_ssh opts) (hd (split_comma s)) 0 e v))
        \<and> (opt_action opts = ''update_system'' \<and> \<not> opt_reboot opts \<longrightarrow>
           (\<exists>w'. main c opts 0 w = Some (Inl (SystemExit 1), w'))))"
proof (intro conjI allI impI)
  note ra = raises_attempt [OF assms]
  {
    fix r w'
    assume "attempt c opts minion w = Some (r, w')"
    with ra [of c minion] show "\<exists>e. r = Inl (PyExc e)"
      unfolding raises_def by blast
  }
  {
    fix r w'
    assume l: "retry_loop c (opt_use_ssh opts) (attempt c opts minion) minion 3 False w =
          Some (r, w')"
    from retry_loop_exhausts [where handler = "attempt c opts minion", OF ra l]
    show "r = Inl (SystemExit 1)" "\<exists>e v. w' = after_failure (opt_use_ssh opts) minion 0 e v"
      by blast+
  }
  assume gate: "replies c (calls w) = PDict ret \<and> opt_minions opts = Some s \<and>
      \<not> opt_test opts \<and> \<not> list_ex (\<lambda>kv. py_eq_num (snd kv) 0) ret"
  let ?w1 = "w\<lparr>calls := calls w + 1,
             trace := trace w @
               [Log INFO PingingAll [],
                Cmd (opt_use_ssh opts) (PList (map PStr (split_comma s))) ''test.ping'' []
                  [(''tgt_type'', PStr ''list''), (''full_return'', PBool True)],
                Log INFO AllResponded []]\<rparr>"
  let ?w2 = "?w1\<lparr>trace := trace ?w1 @ [Log INFO BeginningWork [PStr (hd (split_comma s))]]\<rparr>"
  obtain m rest where ms: "split_comma s = m # rest"
    by (cases "split_comma s") simp_all
  from gate have g: "replies c (calls w) = PDict ret" "opt_minions opts = Some s"
      "\<not> opt_test opts" "\<not> list_ex (\<lambda>kv. py_eq_num (snd kv) 0) ret"
    by blast+
  have m: "main c opts 0 w =
      seq (for_minions c (opt_use_ssh opts) (attempt c opts) (split_comma s))
          (log INFO Finished []) ?w1"
    by (rule main_all_up [OF g])
  have f: "for_minions c (opt_use_ssh opts) (attempt c opts) (split_comma s) ?w1 =
      (case retry_loop c (opt_use_ssh opts) (attempt c opts m) m 3 False ?w2 of
        None \<Rightarrow> None
      | Some (Inl e, w') \<Rightarrow> Some (Inl e, w')
      | Some (Inr u, w') \<Rightarrow> for_minions c (opt_use_ssh opts) (attempt c opts) rest w')"
    unfolding ms for_minions_Cons by simp
  {
    fix r w'
    assume r: "main c opts 0 w = Some (r, w')"
    from r m f obtain y where
      l: "retry_loop c (opt_use_ssh opts) (attempt c opts m) m 3 False ?w2 = Some y"
      by (cases "retry_loop c (opt_use_ssh opts) (attempt c opts m) m 3 False ?w2")
         (auto simp: seq_def bind_def)
    obtain r1 v1 where y: "y = (r1, v1)" by (cases y)
    from retry_loop_exhausts [where handler = "attempt c opts m", OF raises_attempt [OF assms]
        l [unfolded y]]
    have r1: "r1 = Inl (SystemExit 1)"
      and v1: "\<exists>e v. v1 = after_failure (opt_use_ssh opts) m 0 e v"
      by blast+
    from r m f l y r1 have "r = Inl (SystemExit 1)" "w' = v1"
      by (simp_all add: seq_def bind_def)
    with v1 ms show "r = Inl (SystemExit 1)"
      "\<exists>e v. w' = after_failure (opt_use_ssh opts) (hd (split_comma s)) 0 e v"
      by simp_all
  }
  assume u: "opt_action opts = ''update_system'' \<and> \<not> opt_reboot opts"
  then have "attempt c opts m =
      seq (update_system c (opt_use_ssh opts) m) (seq (unit ()) (wait_for_es_service m))"
    by (simp add: attempt_def)
  moreover have "quiet (seq (update_system c (opt_use_ssh opts) m)
      (seq (unit ()) (wait_for_es_service m)))"
    by (intro quiet_seq quiet_update_system quiet_unit)
       (simp add: wait_for_es_service_def)
  ultimately have q: "quiet (attempt c opts m)" by simp
  from retry_loop_exhausts_total [OF q raises_attempt [OF assms], of c "opt_use_ssh opts" m ?w2]
  obtain e v where "retry_loop c (opt_use_ssh opts) (attempt c opts m) m 3 False ?w2 =
      Some (Inl (SystemExit 1), after_failure (opt_use_ssh opts) m 0 e v)"
    by blast
  with m f show "\<exists>w'. main c opts 0 w = Some (Inl (SystemExit 1), w')"
    by (simp add: seq_def bind_def)
qed

theorem undefined_name_fails_every_attempt_witness:
  "opt_action (run_options ''minion-01'' ''update_system'') = ''update_system''
   \<and> \<not> opt_reboot (run_options ''minion-01'' ''update_system'')
   \<and> replies upgraded (calls w0) = ping_one
   \<and> (\<exists>w'. main upgraded (run_options ''minion-01'' ''update_system'') 0 w0 =
            Some (Inl (SystemExit 1), w') \<and>
          w' = after_failure False ''minion-01'' 0 ''NameError''
                 \<lparr>calls = 4, trace = butlast (butlast (trace w'))\<rparr>)"
proof -
  have o: "opt_action (run_options ''minion-01'' ''update_system'') = ''update_system''"
      "\<not> opt_reboot (run_options ''minion-01'' ''update_system'')"
      "opt_minions (run_options ''minion-01'' ''update_system'') = Some ''minion-01''"
      "\<not> opt_test (run_options ''minion-01'' ''update_system'')"
    by (simp_all add: run_options_def)
  have p: "replies upgraded (calls w0) =
      PDict [(''minion-01'', PDict [(''ret'', PBool True)])]"
    by (simp add: upgraded_def upgraded_replies_def ping_one_def w0_def)
  have g: "\<not> list_ex (\<lambda>kv. py_eq_num (snd kv) 0) [(''minion-01'', PDict [(''ret'', PBool True)])]"
    by simp
  from undefined_name_fails_every_attempt
    [of "run_options ''minion-01'' ''update_system''" upgraded "''minion-01''" w0
        "[(''minion-01'', PDict [(''ret'', PBool True)])]" "''minion-01''"]
    o p g
  have "\<exists>w'. main upgraded (run_options ''minion-01'' ''update_system'') 0 w0 =
      Some (Inl (SystemExit 1), w')"
    by blast
  with main_upgraded o p show ?thesis
    by (simp add: after_failure_def ping_one_def)
qed

text \<open>
  The claim as stated fails in two ways. An attempt at \<^verbatim>\<open>reboot_host\<close> can raise before
  the undefined name is reached: here the status query before the reboot returns no
  data and \<^verbatim>\<open>do_salt_call\<close> raises \<^verbatim>\<open>Exception\<close>, not \<^verbatim>\<open>NameError\<close>. And a run need not
  halt: against a node that answers every probe with the old boot's uptime the first
  attempt never ends (see C1), so the run has no exit status.
\<close>

theorem reboot_run_need_not_reach_the_name_nor_halt:
  "attempt no_data (run_options ''minion-01'' ''reboot_host'') ''minion-01'' w0 =
     Some (Inl (PyExc ''Exception''),
       \<lparr>calls = 1,
        trace =
          [Log INFO RestartingHost [PStr ''minion-01''],
           Cmd False (PStr ''minion-01'') ''status.uptime'' [] [(''full_return'', PBool True)],
           Log ERROR NoDataReturned [],
           Log ERROR Payload [PDict [(''minion-01'', PDict [(''ret'', PDict [])])]]]\<rparr>)
   \<and> main hanging (run_options ''minion-01'' ''reboot_host'') 0 w0 = None"
proof
  show "attempt no_data (run_options ''minion-01'' ''reboot_host'') ''minion-01'' w0 =
     Some (Inl (PyExc ''Exception''),
       \<lparr>calls = 1,
        trace =
          [Log INFO RestartingHost [PStr ''minion-01''],
           Cmd False (PStr ''minion-01'') ''status.uptime'' [] [(''full_return'', PBool True)],
           Log ERROR NoDataReturned [],
           Log ERROR Payload [PDict [(''minion-01'', PDict [(''ret'', PDict [])])]]]\<rparr>)"
    by (simp add: attempt_def run_options_def restart_host_def do_salt_call_def prog_defs
        no_data_def py_getitem_def SALT_RETURN_KEY_def w0_def)
  let ?opts = "run_options ''minion-01'' ''reboot_host''"
  let ?w1 = "w0\<lparr>calls := calls w0 + 1,
             trace := trace w0 @
               [Log INFO PingingAll [],
                Cmd (opt_use_ssh ?opts) (PList (map PStr (split_comma ''minion-01'')))
                  ''test.ping'' []
                  [(''tgt_type'', PStr ''list''), (''full_return'', PBool True)],
                Log INFO AllResponded []]\<rparr>"
  let ?w2 = "?w1\<lparr>trace := trace ?w1 @ [Log INFO BeginningWork [PStr ''minion-01'']]\<rparr>"
  have p: "replies hanging (calls w0) = PDict [(''minion-01'', PDict [(''ret'', PBool True)])]"
    by (simp add: hanging_def hanging_replies_def ping_one_def w0_def)
  have m: "main hanging ?opts 0 w0 =
      seq (for_minions hanging (opt_use_ssh ?opts) (attempt hanging ?opts)
             (split_comma ''minion-01''))
          (log INFO Finished []) ?w1"
    by (rule main_all_up [OF p]) (simp_all add: run_options_def)
  have u: "uptime_of False ''minion-01'' (replies hanging (calls ?w2)) = Inr (PInt 1200)"
    by (simp add: uptime_of_def hanging_def hanging_replies_def uptime_reply_def
        py_getitem_def SALT_RETURN_KEY_def w0_def)
  have c3: "calls ?w2 + 2 = 3" by (simp add: w0_def)
  have "restart_host hanging False ''minion-01'' ?w2 = None"
    by (rule restart_host_hangs [OF u]) (simp only: c3 waits_forever_hanging)
  then have a: "attempt hanging ?opts ''minion-01'' ?w2 = None"
    by (simp add: attempt_def run_options_def seq_def bind_def)
  have s: "split_comma ''minion-01'' = [''minion-01'']" by simp
  have "retry_loop hanging (opt_use_ssh ?opts) (attempt hanging ?opts ''minion-01'')
      ''minion-01'' 3 False ?w2 = None"
    by (rule retry_loop_diverges [where handler = "attempt hanging ?opts ''minion-01''", OF a])
  then have "for_minions hanging (opt_use_ssh ?opts) (attempt hanging ?opts)
      [''minion-01''] ?w1 = None"
    unfolding for_minions_Cons by simp
  with m s show "main hanging ?opts 0 w0 = None"
    by (simp add: seq_def bind_def)
qed

section \<open>What a normal return rests on\<close>















end
